theory Spec2Isabelle
  imports Complex_Main
begin

section \<open>Take-profit orchestration (takeprofit_service.py)\<close>

text \<open>
  A shallow embedding of \<^verbatim>\<open>app/services/orders/takeprofit_service.py\<close>:
  \<^verbatim>\<open>_safe_float\<close>, \<^verbatim>\<open>_compute_half_spread\<close>,
  \<^verbatim>\<open>TakeProfitService.add_takeprofit\<close>,
  \<^verbatim>\<open>TakeProfitService.cancel_takeprofit\<close> and
  \<^verbatim>\<open>_wait_for_provider_ack\<close>.

  Scope of the model.
  \<^item> Python values carried by payloads and dictionaries are the scalars
    \<open>None\<close>, \<open>bool\<close>, \<open>int\<close>, \<open>float\<close> and \<open>str\<close>.
  \<^item> A float is a real number or one of the three special values; arithmetic on
    finite floats is exact (rounding, overflow to infinity and signed zeros are
    not modelled), the special values follow IEEE 754.
  \<^item> Strings are ASCII: \<open>lower\<close>, \<open>upper\<close> and \<open>strip\<close> act on ASCII letters and
    ASCII white space.
  \<^item> The interpreter's conversions between floats and \<open>int\<close>/\<open>str\<close> are parameters
    (record \<open>builtins\<close>); every theorem holds for all of them.
  \<^item> Every external call (configuration, trigger store, cache, queue, registry,
    gateway) is recorded in the world's \<open>calls\<close>, every record of the logger in its
    \<open>logs\<close>. The modules the source imports and the repository does not hold
    (\<^verbatim>\<open>order_repository\<close>, \<^verbatim>\<open>service_provider_client\<close>,
    \<^verbatim>\<open>order_registry\<close>) are the environment: what they return, and whether a
    call raises, is read from it, one entry per call site of the source. A call that
    raises has written nothing.
  \<^item> The clock of \<^verbatim>\<open>_wait_for_provider_ack\<close> counts whole milliseconds and does
    not run backwards.
\<close>

subsection \<open>Python values\<close>

datatype pyfloat = Finite real | PInf | NInf | NaN

datatype pyval = PNone | PBool bool | PInt int | PFloat pyfloat | PStr string

datatype pyexn = TypeError | ValueError | OverflowError | AttributeError | ExternalError

text \<open>\<open>x * y\<close> on floats.\<close>

definition fsign :: "pyfloat \<Rightarrow> int" where
  "fsign x = (case x of Finite a \<Rightarrow> (if a < 0 then -1 else if a = 0 then 0 else 1)
                | PInf \<Rightarrow> 1 | NInf \<Rightarrow> -1 | NaN \<Rightarrow> 0)"

definition fmul :: "pyfloat \<Rightarrow> pyfloat \<Rightarrow> pyfloat" where
  "fmul x y =
     (if x = NaN \<or> y = NaN then NaN
      else case (x, y) of
        (Finite a, Finite b) \<Rightarrow> Finite (a * b)
      | _ \<Rightarrow> (let s = fsign x * fsign y
              in if s = 0 then NaN else if 0 < s then PInf else NInf))"

text \<open>\<open>x / 2.0\<close>: the only division of the source.\<close>

definition fhalve :: "pyfloat \<Rightarrow> pyfloat" where
  "fhalve x = (case x of Finite a \<Rightarrow> Finite (a / 2) | s \<Rightarrow> s)"

text \<open>\<open>x + y\<close> and \<open>x - y\<close> on floats.\<close>

definition fadd :: "pyfloat \<Rightarrow> pyfloat \<Rightarrow> pyfloat" where
  "fadd x y =
     (case (x, y) of
        (NaN, _) \<Rightarrow> NaN
      | (_, NaN) \<Rightarrow> NaN
      | (Finite a, Finite b) \<Rightarrow> Finite (a + b)
      | (PInf, NInf) \<Rightarrow> NaN
      | (NInf, PInf) \<Rightarrow> NaN
      | (PInf, _) \<Rightarrow> PInf
      | (_, PInf) \<Rightarrow> PInf
      | (NInf, _) \<Rightarrow> NInf
      | (_, NInf) \<Rightarrow> NInf)"

definition fneg :: "pyfloat \<Rightarrow> pyfloat" where
  "fneg x = (case x of Finite a \<Rightarrow> Finite (- a) | PInf \<Rightarrow> NInf | NInf \<Rightarrow> PInf | NaN \<Rightarrow> NaN)"

definition fsub :: "pyfloat \<Rightarrow> pyfloat \<Rightarrow> pyfloat" where
  "fsub x y = fadd x (fneg y)"

text \<open>The comparisons \<open>x <= 0\<close>, \<open>x >= 0\<close> and \<open>x > 0\<close>; each is false on NaN.\<close>

definition fle_zero :: "pyfloat \<Rightarrow> bool" where
  "fle_zero x = (case x of Finite a \<Rightarrow> a \<le> 0 | NInf \<Rightarrow> True | _ \<Rightarrow> False)"

definition fge_zero :: "pyfloat \<Rightarrow> bool" where
  "fge_zero x = (case x of Finite a \<Rightarrow> 0 \<le> a | PInf \<Rightarrow> True | _ \<Rightarrow> False)"

definition fgt_zero :: "pyfloat \<Rightarrow> bool" where
  "fgt_zero x = (case x of Finite a \<Rightarrow> 0 < a | PInf \<Rightarrow> True | _ \<Rightarrow> False)"

text \<open>
  The interpreter's conversions: \<open>float(s)\<close> on a string (\<open>None\<close>: ValueError),
  \<open>float(i)\<close> on an int (\<open>None\<close>: OverflowError) and \<open>str(x)\<close> on a float.
\<close>

record builtins =
  float_of_str :: "string \<Rightarrow> pyfloat option"
  float_of_int :: "int \<Rightarrow> pyfloat option"
  str_of_float :: "pyfloat \<Rightarrow> string"

text \<open>Truth value of a scalar, as \<open>if v\<close> and \<open>v or d\<close> test it.\<close>

definition truthy :: "pyval \<Rightarrow> bool" where
  "truthy v = (case v of PNone \<Rightarrow> False | PBool b \<Rightarrow> b | PInt i \<Rightarrow> i \<noteq> 0
                 | PFloat f \<Rightarrow> f \<noteq> Finite 0 | PStr s \<Rightarrow> s \<noteq> [])"

definition py_or :: "pyval \<Rightarrow> pyval \<Rightarrow> pyval" where
  "py_or v d = (if truthy v then v else d)"

text \<open>\<open>float(v)\<close>.\<close>

definition py_float :: "builtins \<Rightarrow> pyval \<Rightarrow> pyexn + pyfloat" where
  "py_float B v =
     (case v of
        PNone \<Rightarrow> Inl TypeError
      | PBool b \<Rightarrow> Inr (Finite (if b then 1 else 0))
      | PInt i \<Rightarrow> (case float_of_int B i of None \<Rightarrow> Inl OverflowError | Some f \<Rightarrow> Inr f)
      | PFloat f \<Rightarrow> Inr f
      | PStr s \<Rightarrow> (case float_of_str B s of None \<Rightarrow> Inl ValueError | Some f \<Rightarrow> Inr f))"

text \<open>Decimal digits of an int, for \<open>str(i)\<close>.\<close>

definition digit_char :: "nat \<Rightarrow> char" where
  "digit_char d = ''0123456789'' ! (d mod 10)"

function str_of_nat :: "nat \<Rightarrow> string" where
  "str_of_nat n = (if n < 10 then [digit_char n] else str_of_nat (n div 10) @ [digit_char n])"
  by pat_completeness auto
termination
  by (relation "measure id") auto

declare str_of_nat.simps [simp del]

definition str_of_int :: "int \<Rightarrow> string" where
  "str_of_int i = (if i < 0 then CHR ''-'' # str_of_nat (nat (- i)) else str_of_nat (nat i))"

text \<open>\<open>str(v)\<close>.\<close>

definition py_str :: "builtins \<Rightarrow> pyval \<Rightarrow> string" where
  "py_str B v =
     (case v of
        PNone \<Rightarrow> ''None''
      | PBool b \<Rightarrow> (if b then ''True'' else ''False'')
      | PInt i \<Rightarrow> str_of_int i
      | PFloat f \<Rightarrow> str_of_float B f
      | PStr s \<Rightarrow> s)"

subsection \<open>Strings\<close>

definition lower_alpha :: string where
  "lower_alpha = ''abcdefghijklmnopqrstuvwxyz''"

definition upper_alpha :: string where
  "upper_alpha = ''ABCDEFGHIJKLMNOPQRSTUVWXYZ''"

definition upper_char :: "char \<Rightarrow> char" where
  "upper_char c = (case map_of (zip lower_alpha upper_alpha) c of Some d \<Rightarrow> d | None \<Rightarrow> c)"

definition lower_char :: "char \<Rightarrow> char" where
  "lower_char c = (case map_of (zip upper_alpha lower_alpha) c of Some d \<Rightarrow> d | None \<Rightarrow> c)"

definition upper :: "string \<Rightarrow> string" where
  "upper s = map upper_char s"

definition lower :: "string \<Rightarrow> string" where
  "lower s = map lower_char s"

text \<open>ASCII white space, as \<open>str.strip()\<close> removes it: tab to carriage return,
  the four separators 0x1C to 0x1F, and the space.\<close>

definition is_space :: "char \<Rightarrow> bool" where
  "is_space c = (c \<in> set [CHR 0x09, CHR 0x0A, CHR 0x0B, CHR 0x0C, CHR 0x0D,
                           CHR 0x1C, CHR 0x1D, CHR 0x1E, CHR 0x1F, CHR 0x20])"

definition strip :: "string \<Rightarrow> string" where
  "strip s = rev (dropWhile is_space (rev (dropWhile is_space s)))"

subsection \<open>Dictionaries\<close>

type_synonym pydict = "string \<rightharpoonup> pyval"

text \<open>\<open>d.get(k)\<close>: \<open>None\<close> for a missing key.\<close>

definition dget :: "pydict \<Rightarrow> string \<Rightarrow> pyval" where
  "dget d k = (case d k of None \<Rightarrow> PNone | Some v \<Rightarrow> v)"

subsection \<open>\<open>_safe_float\<close> (lines 13 to 19)\<close>

text \<open>
  \<^verbatim>\<open>
  def _safe_float(v) -> Optional[float]:
      try:
          if v is None:
              return None
          return float(v)
      except (TypeError, ValueError):
          return None
  \<close>
  Only TypeError and ValueError are caught: the OverflowError of \<open>float\<close> on a large
  int leaves the function.
\<close>

definition safe_float :: "builtins \<Rightarrow> pyval \<Rightarrow> pyexn + pyfloat option" where
  "safe_float B v =
     (if v = PNone then Inr None
      else case py_float B v of
        Inr f \<Rightarrow> Inr (Some f)
      | Inl TypeError \<Rightarrow> Inr None
      | Inl ValueError \<Rightarrow> Inr None
      | Inl e \<Rightarrow> Inl e)"

subsection \<open>The world: external stores, and the calls made to them\<close>

text \<open>The arguments of \<^verbatim>\<open>upsert_order_triggers\<close> (lines 81 to 91), which are the row
  the trigger store keeps.\<close>

record trigger =
  tr_order_id :: string
  tr_symbol :: string
  tr_side :: string
  tr_user_type :: string
  tr_user_id :: string
  tr_stop_loss :: "pyfloat option"
  tr_take_profit :: pyfloat
  tr_score_stop_loss :: "pyfloat option"
  tr_score_take_profit :: pyfloat

text \<open>A command queued on a cache pipeline.\<close>

datatype redis_cmd = Hset string "(string \<times> string) list" | Hdel string string

datatype call =
    FetchUserConfig string string
  | FetchGroupData string pyval
  | UpsertOrderTriggers trigger
  | RemoveTakeprofitTrigger string
  | RedisHset string "(string \<times> string) list"
  | RedisPipeline "redis_cmd list"
  | RedisHgetall string
  | RedisHget string string
  | AddLifecycleId string string string
  | SendProviderOrder "(string \<times> pyval) list"
  | PublishDbUpdate "(string \<times> pyval) list"

datatype level = INFO | WARNING | ERROR

text \<open>
  \<open>triggers\<close> is the trigger-monitor store, \<open>redis\<close> the hashes of the cache (a key
  with no hash holds the empty one), \<open>queue\<close> the messages published to the durable
  queue, \<open>registry\<close> the lifecycle-id registry. \<open>calls\<close> lists every external call
  attempted, oldest first, whether it succeeded or raised; \<open>logs\<close> the records of
  the logger (level and format string).
\<close>

record world =
  triggers :: "string \<rightharpoonup> trigger"
  redis :: "string \<Rightarrow> (string \<rightharpoonup> string)"
  queue :: "(string \<times> pyval) list list"
  registry :: "(string \<times> string \<times> string) list"
  calls :: "call list"
  logs :: "(level \<times> string) list"

text \<open>The call sites of the source whose failure is an exception, by line.\<close>

datatype site =
    FetchGroupHalfSpread  \<comment> \<open>line 24\<close>
  | HsetOrderData         \<comment> \<open>line 97\<close>
  | HsetHoldings          \<comment> \<open>line 111\<close>
  | PublishSet            \<comment> \<open>lines 126 to 139\<close>
  | LifecycleTakeprofit   \<comment> \<open>line 163\<close>
  | MarkTakeprofit        \<comment> \<open>lines 172 to 175\<close>
  | HgetallOrderData      \<comment> \<open>line 186\<close>
  | FetchGroupContract    \<comment> \<open>line 201\<close>
  | RemoveTrigger         \<comment> \<open>line 275\<close>
  | ClearTakeprofit       \<comment> \<open>lines 282 to 287\<close>
  | PublishCancel         \<comment> \<open>lines 292 to 311\<close>
  | LifecycleCancel       \<comment> \<open>line 327\<close>
  | MarkCancel            \<comment> \<open>lines 363 to 366\<close>
  | HgetVerify            \<comment> \<open>line 372\<close>

text \<open>
  The environment of one request: what the configuration lookups return, which
  call sites raise, what \<^verbatim>\<open>upsert_order_triggers\<close> and
  \<^verbatim>\<open>send_provider_order\<close> return, and the value the read-back of line 372
  observes (the environment's, since other writers share the cache).
\<close>

record env =
  user_config :: "string \<Rightarrow> string \<Rightarrow> pydict"
  group_data :: "string \<Rightarrow> pyval \<Rightarrow> pydict"
  raises :: "site \<Rightarrow> bool"
  upsert_result :: bool
  send_result :: "bool \<times> string"
  verify_read :: "string option"

definition called :: "call \<Rightarrow> world \<Rightarrow> world" where
  "called c w = w\<lparr>calls := calls w @ [c]\<rparr>"

definition logged :: "level \<Rightarrow> string \<Rightarrow> world \<Rightarrow> world" where
  "logged l m w = w\<lparr>logs := logs w @ [(l, m)]\<rparr>"

text \<open>What a cache command does to the hashes.\<close>

definition hset_fields :: "(string \<times> string) list \<Rightarrow> (string \<rightharpoonup> string) \<Rightarrow> (string \<rightharpoonup> string)" where
  "hset_fields m h = fold (\<lambda>(f, v) h'. h'(f \<mapsto> v)) m h"

definition run_cmd :: "redis_cmd \<Rightarrow> (string \<Rightarrow> (string \<rightharpoonup> string)) \<Rightarrow> (string \<Rightarrow> (string \<rightharpoonup> string))" where
  "run_cmd c r =
     (case c of
        Hset k m \<Rightarrow> r(k := hset_fields m (r k))
      | Hdel k f \<Rightarrow> r(k := (r k)(f := None)))"

definition run_cmds :: "redis_cmd list \<Rightarrow> (string \<Rightarrow> (string \<rightharpoonup> string)) \<Rightarrow> (string \<Rightarrow> (string \<rightharpoonup> string))" where
  "run_cmds cs r = fold run_cmd cs r"

text \<open>\<open>redis_cluster.hset(key, mapping=m)\<close> inside \<open>try ... except Exception: pass\<close>:
  a call that raises writes nothing.\<close>

definition try_hset :: "env \<Rightarrow> site \<Rightarrow> string \<Rightarrow> (string \<times> string) list \<Rightarrow> world \<Rightarrow> world" where
  "try_hset E s k m w =
     (let w1 = called (RedisHset k m) w
      in if raises E s then w1 else w1\<lparr>redis := run_cmd (Hset k m) (redis w1)\<rparr>)"

text \<open>\<open>pipe = redis_cluster.pipeline(); ...; await pipe.execute()\<close>: \<open>True\<close> when the
  pipeline ran, \<open>False\<close> when it raised (nothing written).\<close>

definition exec_pipeline :: "env \<Rightarrow> site \<Rightarrow> redis_cmd list \<Rightarrow> world \<Rightarrow> bool \<times> world" where
  "exec_pipeline E s cs w =
     (let w1 = called (RedisPipeline cs) w
      in if raises E s then (False, w1) else (True, w1\<lparr>redis := run_cmds cs (redis w1)\<rparr>))"

text \<open>Publishing a message to the durable queue (lines 126 to 139 and 292 to 311):
  connect, declare the queue, publish, close.\<close>

definition try_publish :: "env \<Rightarrow> site \<Rightarrow> (string \<times> pyval) list \<Rightarrow> string \<Rightarrow> world \<Rightarrow> world" where
  "try_publish E s msg warning w =
     (let w1 = called (PublishDbUpdate msg) w
      in if raises E s then logged WARNING warning w1 else w1\<lparr>queue := queue w1 @ [msg]\<rparr>)"

text \<open>\<open>add_lifecycle_id(order_id, external_id, kind)\<close> inside \<open>try\<close>.\<close>

definition try_add_lifecycle :: "env \<Rightarrow> site \<Rightarrow> string \<Rightarrow> string \<Rightarrow> string \<Rightarrow> string \<Rightarrow> world \<Rightarrow> world" where
  "try_add_lifecycle E s oid ext kind warning w =
     (let w1 = called (AddLifecycleId oid ext kind) w
      in if raises E s then logged WARNING warning w1
         else w1\<lparr>registry := registry w1 @ [(oid, ext, kind)]\<rparr>)"

text \<open>The keys of the two cache keyspaces (lines 97, 109 and 110).\<close>

definition order_data_key :: "string \<Rightarrow> string" where
  "order_data_key order_id = ''order_data:'' @ order_id"

definition holdings_key :: "string \<Rightarrow> string \<Rightarrow> string \<Rightarrow> string" where
  "holdings_key user_type user_id order_id =
     ''user_holdings:{'' @ (user_type @ '':'' @ user_id) @ ''}:'' @ order_id"

subsection \<open>\<open>_compute_half_spread\<close> (lines 22 to 32)\<close>

text \<open>
  \<^verbatim>\<open>
  async def _compute_half_spread(symbol: str, group: str) -> float:
      try:
          g = await fetch_group_data(symbol, group)
          spread = _safe_float(g.get("spread"))
          spread_pip = _safe_float(g.get("spread_pip"))
          if spread is None or spread_pip is None:
              return 0.0
          return float(spread * spread_pip / 2.0)
      except Exception as e:
          logger.warning("half_spread compute failed for %s/%s: %s", group, symbol, e)
          return 0.0
  \<close>
  \<open>half_spread_body\<close> is the body of the \<open>try\<close>, given whether the lookup raised and
  what it returned; \<open>compute_half_spread\<close> adds the handler.
\<close>

definition half_spread_body :: "builtins \<Rightarrow> bool \<Rightarrow> pydict \<Rightarrow> pyexn + pyfloat" where
  "half_spread_body B lookup_raises g =
     (if lookup_raises then Inl ExternalError
      else case safe_float B (dget g ''spread'') of
        Inl e \<Rightarrow> Inl e
      | Inr spread \<Rightarrow>
          (case safe_float B (dget g ''spread_pip'') of
             Inl e \<Rightarrow> Inl e
           | Inr spread_pip \<Rightarrow>
               (case (spread, spread_pip) of
                  (Some a, Some b) \<Rightarrow> Inr (fhalve (fmul a b))
                | _ \<Rightarrow> Inr (Finite 0))))"

definition compute_half_spread :: "builtins \<Rightarrow> env \<Rightarrow> string \<Rightarrow> pyval \<Rightarrow> world \<Rightarrow> pyfloat \<times> world" where
  "compute_half_spread B E symbol grp w =
     (let w1 = called (FetchGroupData symbol grp) w
      in case half_spread_body B (raises E FetchGroupHalfSpread) (group_data E symbol grp) of
           Inr h \<Rightarrow> (h, w1)
         | Inl e \<Rightarrow> (Finite 0, logged WARNING ''half_spread compute failed for %s/%s: %s'' w1))"

subsection \<open>Results of the two operations\<close>

datatype flow = Local | Provider

text \<open>
  The dictionaries the operations return, one constructor per \<open>return\<close>:
  \<^descr> \<open>MissingFields fields\<close> \<open>{ok: False, reason: "missing_fields", fields}\<close>
  \<^descr> \<open>InvalidOrderType\<close> \<open>{ok: False, reason: "invalid_order_type"}\<close>
  \<^descr> \<open>InvalidTakeProfit\<close> \<open>{ok: False, reason: "invalid_take_profit"}\<close>
  \<^descr> \<open>UnsupportedFlow user_type sending_orders\<close>
    \<open>{ok: False, reason: "unsupported_flow", details: {user_type, sending_orders}}\<close>
  \<^descr> \<open>UpsertTriggersFailed\<close> \<open>{ok: False, reason: "upsert_triggers_failed"}\<close>
  \<^descr> \<open>ProviderSendFailed via\<close> \<open>{ok: False, reason: "provider_send_failed:" + via}\<close>
  \<^descr> \<open>RedisStatusUpdateFailed\<close>
    \<open>{ok: False, reason: "redis_status_update_failed", error}\<close> (the text of the
    exception is not modelled)
  \<^descr> \<open>AddedLocal flow order_id symbol order_type take_profit score_take_profit\<close>
    the success of lines 143 to 151
  \<^descr> \<open>AddSent flow order_id symbol order_type take_profit_sent\<close>
    the success of lines 231 to 239
  \<^descr> \<open>CancelledLocal flow order_id symbol order_type\<close> the success of lines 315 to 322
  \<^descr> \<open>CancelSent flow order_id symbol order_type\<close> the success of lines 385 to 393,
    with \<open>provider_cancel_sent: True\<close>
\<close>

datatype result =
    MissingFields "string list"
  | InvalidOrderType
  | InvalidTakeProfit
  | UnsupportedFlow string string
  | UpsertTriggersFailed
  | ProviderSendFailed string
  | RedisStatusUpdateFailed
  | AddedLocal string string string string pyfloat pyfloat
  | AddSent string string string string pyfloat
  | CancelledLocal string string string string
  | CancelSent string string string string

text \<open>The \<open>ok\<close> and \<open>reason\<close> entries of a result.\<close>

definition ok :: "result \<Rightarrow> bool" where
  "ok r = (case r of
             AddedLocal _ _ _ _ _ _ \<Rightarrow> True
           | AddSent _ _ _ _ _ \<Rightarrow> True
           | CancelledLocal _ _ _ _ \<Rightarrow> True
           | CancelSent _ _ _ _ \<Rightarrow> True
           | _ \<Rightarrow> False)"

definition reason :: "result \<Rightarrow> string option" where
  "reason r = (case r of
                 MissingFields _ \<Rightarrow> Some ''missing_fields''
               | InvalidOrderType \<Rightarrow> Some ''invalid_order_type''
               | InvalidTakeProfit \<Rightarrow> Some ''invalid_take_profit''
               | UnsupportedFlow _ _ \<Rightarrow> Some ''unsupported_flow''
               | UpsertTriggersFailed \<Rightarrow> Some ''upsert_triggers_failed''
               | ProviderSendFailed via \<Rightarrow> Some (''provider_send_failed:'' @ via)
               | RedisStatusUpdateFailed \<Rightarrow> Some ''redis_status_update_failed''
               | _ \<Rightarrow> None)"

subsection \<open>Flow resolution (lines 53 to 70 and 254 to 271)\<close>

text \<open>
  \<^verbatim>\<open>
  cfg = await fetch_user_config(user_type, user_id)
  group = cfg.get("group") or "Standard"
  sending_orders = (cfg.get("sending_orders") or "").strip().lower()
  \<close>
  \<open>strip\<close> is a method of \<open>str\<close>: a true value of another type raises AttributeError.
\<close>

definition read_config :: "env \<Rightarrow> string \<Rightarrow> string \<Rightarrow> world \<Rightarrow> (pyexn + pyval \<times> string) \<times> world" where
  "read_config E user_type user_id w =
     (let w1 = called (FetchUserConfig user_type user_id) w;
          cfg = user_config E user_type user_id;
          grp = py_or (dget cfg ''group'') (PStr ''Standard'')
      in case py_or (dget cfg ''sending_orders'') (PStr []) of
           PStr s \<Rightarrow> (Inr (grp, lower (strip s)), w1)
         | _ \<Rightarrow> (Inl AttributeError, w1))"

text \<open>
  \<^verbatim>\<open>
  if (user_type == "demo") or (user_type == "live" and sending_orders == "rock"):
      flow = "local"
  elif user_type == "live" and sending_orders == "barclays":
      flow = "provider"
  elif user_type in ["strategy_provider", "copy_follower"]:
      if sending_orders == "rock":
          flow = "local"
      elif sending_orders == "barclays":
          flow = "provider"
      else:
          flow = "provider"
  else:
      return {"ok": False, "reason": "unsupported_flow", ...}
  \<close>
  The same text stands in both operations; \<open>None\<close> is the \<open>return\<close> of the last branch.
\<close>

definition resolve_flow :: "string \<Rightarrow> string \<Rightarrow> flow option" where
  "resolve_flow user_type sending_orders =
     (if user_type = ''demo'' \<or> (user_type = ''live'' \<and> sending_orders = ''rock'') then Some Local
      else if user_type = ''live'' \<and> sending_orders = ''barclays'' then Some Provider
      else if user_type \<in> set [''strategy_provider'', ''copy_follower''] then
        (if sending_orders = ''rock'' then Some Local
         else if sending_orders = ''barclays'' then Some Provider
         else Some Provider)
      else None)"

subsection \<open>The trigger store\<close>

text \<open>
  Modelled from the spec: \<^verbatim>\<open>upsert_order_triggers\<close> lives in
  \<^verbatim>\<open>sl_tp_repository\<close>, which is not among the source files. The spec gives
  \<open>Upsert(order_id, ...) -> bool\<close> on a store of rows keyed by \<open>order_id\<close>: an upsert
  that returns true has written the row, one that returns false has written nothing.
\<close>

definition upsert_order_triggers :: "env \<Rightarrow> trigger \<Rightarrow> world \<Rightarrow> bool \<times> world" where
  "upsert_order_triggers E tr w =
     (let w1 = called (UpsertOrderTriggers tr) w
      in if upsert_result E then (True, w1\<lparr>triggers := (triggers w1)(tr_order_id tr \<mapsto> tr)\<rparr>)
         else (False, w1))"

text \<open>
  Modelled from the spec: \<^verbatim>\<open>remove_takeprofit_trigger\<close> of the same module, which is
  not among the source files; \<open>Remove(order_id) -> void (best-effort)\<close> deletes the row
  of the order, unless it raises.
\<close>

definition remove_takeprofit_trigger :: "env \<Rightarrow> string \<Rightarrow> world \<Rightarrow> world" where
  "remove_takeprofit_trigger E order_id w =
     (let w1 = called (RemoveTakeprofitTrigger order_id) w
      in if raises E RemoveTrigger then w1
         else w1\<lparr>triggers := (triggers w1)(order_id := None)\<rparr>)"

subsection \<open>\<open>add_takeprofit\<close>, local flow (lines 74 to 151)\<close>

definition add_local ::
  "builtins \<Rightarrow> env \<Rightarrow> string \<Rightarrow> string \<Rightarrow> string \<Rightarrow> string \<Rightarrow> string \<Rightarrow> pyfloat \<Rightarrow> pyfloat \<Rightarrow> world
   \<Rightarrow> result \<times> world" where
  "add_local B E order_id user_id user_type symbol side tp_raw half_spread w =
     (let score_tp = (if side = ''BUY'' then fadd tp_raw half_spread else fsub tp_raw half_spread);
          tr = \<lparr>tr_order_id = order_id, tr_symbol = symbol, tr_side = side,
                tr_user_type = user_type, tr_user_id = user_id, tr_stop_loss = None,
                tr_take_profit = tp_raw, tr_score_stop_loss = None,
                tr_score_take_profit = score_tp\<rparr>
      in case upsert_order_triggers E tr w of
           (False, w1) \<Rightarrow> (UpsertTriggersFailed, w1)
         | (True, w1) \<Rightarrow>
             (let w2 = try_hset E HsetOrderData (order_data_key order_id)
                         [(''symbol'', symbol), (''order_type'', side), (''user_type'', user_type),
                          (''user_id'', user_id), (''take_profit'', str_of_float B tp_raw)] w1;
                  w3 = try_hset E HsetHoldings (holdings_key user_type user_id order_id)
                         [(''take_profit'', str_of_float B tp_raw)] w2;
                  w4 = try_publish E PublishSet
                         [(''type'', PStr ''ORDER_TAKEPROFIT_SET''), (''order_id'', PStr order_id),
                          (''user_id'', PStr user_id), (''user_type'', PStr user_type),
                          (''take_profit'', PFloat tp_raw)]
                         ''Failed to publish DB update for takeprofit set: %s'' w3
              in (AddedLocal ''local'' order_id symbol side tp_raw score_tp, w4)))"

subsection \<open>\<open>add_takeprofit\<close>, provider flow (lines 153 to 239)\<close>

text \<open>\<open>_safe_float(od.get(k))\<close> on a hash of the cache, whose values are strings: the
  ValueError of \<open>float\<close> is caught and nothing else is raised.\<close>

definition cached_float :: "builtins \<Rightarrow> (string \<rightharpoonup> string) \<Rightarrow> string \<Rightarrow> pyfloat option" where
  "cached_float B od k = (case od k of None \<Rightarrow> None | Some s \<Rightarrow> float_of_str B s)"

text \<open>Lines 184 to 195: quantity, entry price and contract value from the canonical
  cache record, when the payload lacks the first or the second.\<close>

definition fill_from_cache ::
  "builtins \<Rightarrow> env \<Rightarrow> string \<Rightarrow> pyfloat option \<Rightarrow> pyfloat option \<Rightarrow> world
   \<Rightarrow> (pyfloat option \<times> pyfloat option \<times> pyfloat option) \<times> world" where
  "fill_from_cache B E order_id qty entry_price w =
     (if qty = None \<or> entry_price = None then
        (let w1 = called (RedisHgetall (order_data_key order_id)) w
         in if raises E HgetallOrderData then ((qty, entry_price, None), w1)
            else (let od = redis w1 (order_data_key order_id);
                      qty' = (if qty = None then cached_float B od ''order_quantity'' else qty);
                      entry' = (if entry_price = None then cached_float B od ''order_price''
                                else entry_price)
                  in ((qty', entry', cached_float B od ''contract_value''), w1)))
      else ((qty, entry_price, None), w))"

text \<open>Lines 197 to 208: the contract value.\<close>

definition contract_value_of ::
  "builtins \<Rightarrow> env \<Rightarrow> string \<Rightarrow> pyval \<Rightarrow> pyfloat option \<Rightarrow> pyfloat option \<Rightarrow> pyfloat option
   \<Rightarrow> world \<Rightarrow> pyfloat option \<times> world" where
  "contract_value_of B E symbol grp cv_existing qty entry_price w =
     (case cv_existing of
        Some cv \<Rightarrow> (Some cv, w)
      | None \<Rightarrow>
          (let w1 = called (FetchGroupData symbol grp) w
           in if raises E FetchGroupContract then (None, w1)
              else case safe_float B (dget (group_data E symbol grp) ''contract_size'') of
                     Inl e \<Rightarrow> (None, w1)
                   | Inr cs \<Rightarrow>
                       (let contract_size =
                              (case cs of None \<Rightarrow> Finite 1
                               | Some c \<Rightarrow> if c = Finite 0 then Finite 1 else c)
                        in case (qty, entry_price) of
                             (Some q, Some e) \<Rightarrow> (Some (fmul (fmul contract_size q) e), w1)
                           | _ \<Rightarrow> (None, w1))))"

definition add_provider ::
  "builtins \<Rightarrow> env \<Rightarrow> pydict \<Rightarrow> string \<Rightarrow> string \<Rightarrow> string \<Rightarrow> string \<Rightarrow> string \<Rightarrow> pyval
   \<Rightarrow> pyfloat \<Rightarrow> pyfloat \<Rightarrow> world \<Rightarrow> (pyexn + result) \<times> world" where
  "add_provider B E payload order_id user_id user_type symbol side grp tp_raw half_spread w =
     (let provider_tp = (if side = ''BUY'' then fadd tp_raw half_spread
                         else fsub tp_raw half_spread);
          tpid = dget payload ''takeprofit_id'';
          w1 = (if truthy tpid
                then try_add_lifecycle E LifecycleTakeprofit order_id (py_str B tpid)
                       ''takeprofit_id'' ''add_lifecycle_id takeprofit_id failed: %s'' w
                else w);
          w2 = snd (exec_pipeline E MarkTakeprofit
                 [Hset (order_data_key order_id)
                    [(''status'', ''TAKEPROFIT''), (''symbol'', symbol), (''order_type'', side)],
                  Hset (holdings_key user_type user_id order_id) [(''status'', ''TAKEPROFIT'')]]
                 w1);
          order_status_in = py_str B (py_or (dget payload ''order_status'') (PStr ''OPEN''))
      in case safe_float B (dget payload ''order_quantity'') of
           Inl e \<Rightarrow> (Inl e, w2)
         | Inr qty0 \<Rightarrow>
        (case safe_float B (dget payload ''order_price'') of
           Inl e \<Rightarrow> (Inl e, w2)
         | Inr entry0 \<Rightarrow>
        (case fill_from_cache B E order_id qty0 entry0 w2 of
           ((qty, entry_price, cv_existing), w3) \<Rightarrow>
        (case contract_value_of B E symbol grp cv_existing qty entry_price w3 of
           (contract_value, w4) \<Rightarrow>
        (let provider_payload =
               [(''order_id'', PStr order_id), (''symbol'', PStr symbol),
                (''order_status'', PStr order_status_in), (''status'', PStr ''TAKEPROFIT''),
                (''order_type'', PStr side), (''takeprofit'', PFloat provider_tp),
                (''type'', PStr ''order'')]
               @ (case contract_value of None \<Rightarrow> [] | Some cv \<Rightarrow> [(''contract_value'', PFloat cv)])
               @ (case qty of None \<Rightarrow> [] | Some q \<Rightarrow> [(''order_quantity'', PFloat q)])
               @ (if truthy tpid then [(''takeprofit_id'', PStr (py_str B tpid))] else []);
             w5 = called (SendProviderOrder provider_payload) w4
         in case send_result E of
              (False, via) \<Rightarrow> (Inr (ProviderSendFailed via), w5)
            | (True, via) \<Rightarrow>
                (Inr (AddSent ''provider'' order_id symbol side provider_tp), w5))))))"

subsection \<open>\<open>add_takeprofit\<close> (lines 36 to 72)\<close>

text \<open>Lines 52 to 72, and the choice between the two flows at line 74: what
  \<open>add_takeprofit\<close> does with a payload that passed its checks.\<close>

definition add_routed ::
  "builtins \<Rightarrow> env \<Rightarrow> pydict \<Rightarrow> string \<Rightarrow> string \<Rightarrow> string \<Rightarrow> string \<Rightarrow> string \<Rightarrow> pyfloat
   \<Rightarrow> world \<Rightarrow> (pyexn + result) \<times> world" where
  "add_routed B E payload order_id user_id user_type symbol side tp_raw w =
     (case read_config E user_type user_id w of
        (Inl e, w1) \<Rightarrow> (Inl e, w1)
      | (Inr (grp, sending_orders), w1) \<Rightarrow>
          (case resolve_flow user_type sending_orders of
             None \<Rightarrow> (Inr (UnsupportedFlow user_type sending_orders), w1)
           | Some fl \<Rightarrow>
               (case compute_half_spread B E symbol grp w1 of
                  (half_spread, w2) \<Rightarrow>
                    (case fl of
                       Local \<Rightarrow>
                         (case add_local B E order_id user_id user_type symbol side tp_raw
                                 half_spread w2 of
                            (r, w3) \<Rightarrow> (Inr r, w3))
                     | Provider \<Rightarrow>
                         add_provider B E payload order_id user_id user_type symbol side grp
                           tp_raw half_spread w2))))"

definition add_required :: "string list" where
  "add_required = [''order_id'', ''user_id'', ''user_type'', ''symbol'', ''order_type'', ''take_profit'']"

text \<open>Lines 37 to 50, then the rest. \<open>payload[k]\<close> is read with \<open>dget\<close>: the key is
  present, since \<open>missing\<close> is empty.\<close>

definition add_takeprofit :: "builtins \<Rightarrow> env \<Rightarrow> pydict \<Rightarrow> world \<Rightarrow> (pyexn + result) \<times> world" where
  "add_takeprofit B E payload w =
     (let missing = filter (\<lambda>k. payload k = None) add_required
      in if missing \<noteq> [] then (Inr (MissingFields missing), w)
         else
        (let order_id = py_str B (dget payload ''order_id'');
             user_id = py_str B (dget payload ''user_id'');
             user_type = lower (py_str B (dget payload ''user_type''));
             symbol = upper (py_str B (dget payload ''symbol''));
             side = upper (py_str B (dget payload ''order_type''))
         in if side \<notin> set [''BUY'', ''SELL''] then (Inr InvalidOrderType, w)
            else case safe_float B (dget payload ''take_profit'') of
                   Inl e \<Rightarrow> (Inl e, w)
                 | Inr None \<Rightarrow> (Inr InvalidTakeProfit, w)
                 | Inr (Some tp_raw) \<Rightarrow>
                     if fle_zero tp_raw then (Inr InvalidTakeProfit, w)
                     else add_routed B E payload order_id user_id user_type symbol side tp_raw w))"

subsection \<open>\<open>cancel_takeprofit\<close> (lines 241 to 393)\<close>

text \<open>Local flow, lines 273 to 322: each of the three steps stands in a \<open>try\<close> of its
  own whose handler does nothing, or logs a warning.\<close>

definition cancel_local ::
  "env \<Rightarrow> string \<Rightarrow> string \<Rightarrow> string \<Rightarrow> string \<Rightarrow> string \<Rightarrow> world \<Rightarrow> result \<times> world" where
  "cancel_local E order_id user_id user_type symbol side w =
     (let w1 = remove_takeprofit_trigger E order_id w;
          w2 = snd (exec_pipeline E ClearTakeprofit
                 [Hdel (order_data_key order_id) ''take_profit'',
                  Hdel (holdings_key user_type user_id order_id) ''take_profit'',
                  Hset (order_data_key order_id)
                    [(''status'', ''OPEN''), (''symbol'', symbol), (''order_type'', side)],
                  Hset (holdings_key user_type user_id order_id) [(''status'', ''OPEN'')]]
                 w1);
          w3 = try_publish E PublishCancel
                 [(''type'', PStr ''ORDER_TAKEPROFIT_CANCEL''), (''order_id'', PStr order_id),
                  (''user_id'', PStr user_id), (''user_type'', PStr user_type)]
                 ''Failed to publish DB update for takeprofit cancel: %s'' w2
      in (CancelledLocal ''local'' order_id symbol side, w3))"

text \<open>Lines 370 to 377: the read-back of the status, inside the \<open>try\<close> of the write.\<close>

definition verify_status :: "env \<Rightarrow> string \<Rightarrow> world \<Rightarrow> world" where
  "verify_status E order_id w =
     (let w1 = called (RedisHget (order_data_key order_id) ''status'') w
      in if raises E HgetVerify
         then logged ERROR ''TAKEPROFIT-CANCEL status verification error for order_id=%s: %s'' w1
         else (let w2 = logged INFO
                      ''TAKEPROFIT-CANCEL status verification for order_id=%s current_status=%s'' w1
               in if verify_read E \<noteq> Some ''TAKEPROFIT-CANCEL''
                  then logged ERROR
                    ''TAKEPROFIT-CANCEL status verification FAILED for order_id=%s expected=TAKEPROFIT-CANCEL actual=%s''
                    w2
                  else w2))"

text \<open>Provider flow, lines 324 to 393.\<close>

definition cancel_provider ::
  "builtins \<Rightarrow> env \<Rightarrow> pydict \<Rightarrow> string \<Rightarrow> string \<Rightarrow> string \<Rightarrow> string \<Rightarrow> string \<Rightarrow> world
   \<Rightarrow> result \<times> world" where
  "cancel_provider B E payload order_id user_id user_type symbol side w =
     (let takeprofit_cancel_id =
            strip (py_str B (py_or (dget payload ''takeprofit_cancel_id'') (PStr [])));
          w1 = (if takeprofit_cancel_id \<noteq> []
                then try_add_lifecycle E LifecycleCancel order_id takeprofit_cancel_id
                       ''takeprofit_cancel_id'' ''add_lifecycle_id takeprofit_cancel_id failed: %s'' w
                else w);
          takeprofit_id = strip (py_str B (py_or (dget payload ''takeprofit_id'') (PStr [])));
          provider_payload =
            [(''order_id'', PStr order_id), (''symbol'', PStr symbol), (''order_type'', PStr side),
             (''takeprofit_id'', PStr takeprofit_id),
             (''takeprofit_cancel_id'', PStr takeprofit_cancel_id),
             (''status'', PStr ''TAKEPROFIT-CANCEL''), (''type'', PStr ''order'')]
            @ (if takeprofit_cancel_id \<noteq> []
               then [(''take_profit_cancel_id'', PStr takeprofit_cancel_id)] else []);
          w2 = logged INFO
                 ''Takeprofit cancel sending via persistent connection for order_id=%s'' w1;
          w3 = called (SendProviderOrder provider_payload) w2
      in case send_result E of
           (False, via) \<Rightarrow> (ProviderSendFailed via, w3)
         | (True, via) \<Rightarrow>
             (let w4 = logged INFO
                         ''Takeprofit cancel sent via persistent connection (%s) for order_id=%s'' w3;
                  w5 = logged INFO
                         ''TAKEPROFIT-CANCEL setting Redis status for order_id=%s order_data_key=%s'' w4
              in case exec_pipeline E MarkCancel
                        [Hset (order_data_key order_id)
                           [(''status'', ''TAKEPROFIT-CANCEL''), (''symbol'', symbol),
                            (''order_type'', side), (''takeprofit_cancel_id'', takeprofit_cancel_id)],
                         Hset (holdings_key user_type user_id order_id)
                           [(''status'', ''TAKEPROFIT-CANCEL'')]]
                        w5 of
                   (False, w6) \<Rightarrow>
                     (RedisStatusUpdateFailed,
                      logged ERROR
                        ''Failed to set TAKEPROFIT-CANCEL status in Redis for order_id=%s: %s'' w6)
                 | (True, w6) \<Rightarrow>
                     (let w7 = logged INFO
                                 ''TAKEPROFIT-CANCEL status set in Redis for order_id=%s pipeline_result=%s''
                                 w6;
                          w8 = verify_status E order_id w7
                      in (CancelSent ''provider'' order_id symbol side, w8))))"

text \<open>Lines 254 to 273: what \<open>cancel_takeprofit\<close> does with a payload that passed
  its checks.\<close>

definition cancel_routed ::
  "builtins \<Rightarrow> env \<Rightarrow> pydict \<Rightarrow> string \<Rightarrow> string \<Rightarrow> string \<Rightarrow> string \<Rightarrow> string \<Rightarrow> world
   \<Rightarrow> (pyexn + result) \<times> world" where
  "cancel_routed B E payload order_id user_id user_type symbol side w =
     (case read_config E user_type user_id w of
        (Inl e, w1) \<Rightarrow> (Inl e, w1)
      | (Inr (grp, sending_orders), w1) \<Rightarrow>
          (case resolve_flow user_type sending_orders of
             None \<Rightarrow> (Inr (UnsupportedFlow user_type sending_orders), w1)
           | Some Local \<Rightarrow>
               (case cancel_local E order_id user_id user_type symbol side w1 of
                  (r, w2) \<Rightarrow> (Inr r, w2))
           | Some Provider \<Rightarrow>
               (case cancel_provider B E payload order_id user_id user_type symbol side w1 of
                  (r, w2) \<Rightarrow> (Inr r, w2))))"

definition cancel_required :: "string list" where
  "cancel_required =
     [''order_id'', ''user_id'', ''user_type'', ''symbol'', ''order_type'', ''takeprofit_id'']"

text \<open>Lines 242 to 252, then the rest.\<close>

definition cancel_takeprofit :: "builtins \<Rightarrow> env \<Rightarrow> pydict \<Rightarrow> world \<Rightarrow> (pyexn + result) \<times> world" where
  "cancel_takeprofit B E payload w =
     (let missing = filter (\<lambda>k. payload k = None) cancel_required
      in if missing \<noteq> [] then (Inr (MissingFields missing), w)
         else
        (let order_id = strip (py_str B (dget payload ''order_id''));
             user_id = strip (py_str B (dget payload ''user_id''));
             user_type = strip (lower (py_str B (dget payload ''user_type'')));
             symbol = strip (upper (py_str B (dget payload ''symbol'')));
             side = strip (upper (py_str B (dget payload ''order_type'')))
         in if side \<notin> set [''BUY'', ''SELL''] then (Inr InvalidOrderType, w)
            else cancel_routed B E payload order_id user_id user_type symbol side w))"

subsection \<open>\<open>_wait_for_provider_ack\<close> (lines 396 to 419)\<close>

text \<open>
  What one poll of the key finds, that is what \<open>redis_cluster.get(key)\<close> and then
  \<open>orjson.loads(raw)\<close> give:
  \<^descr> \<open>GetRaises\<close> the read raises;
  \<^descr> \<open>NoValue\<close> the read gives \<open>None\<close> or an empty value (\<open>if raw\<close> fails);
  \<^descr> \<open>Unparsable\<close> the value is not JSON (\<open>data = None\<close>);
  \<^descr> \<open>JsonFalsy\<close> the value is JSON for a false value that is no object
    (\<open>data or {}\<close> is the empty dictionary);
  \<^descr> \<open>JsonOther\<close> the value is JSON for a true value that is no object (its \<open>get\<close>
    raises AttributeError, which the outer handler swallows);
  \<^descr> \<open>JsonObject d\<close> the value is JSON for the object \<open>d\<close>.
\<close>

datatype ack_raw = GetRaises | NoValue | Unparsable | JsonFalsy | JsonOther | JsonObject pydict

text \<open>\<open>str((data or {}).get("ord_status") or "").upper()\<close>\<close>

definition ord_status_of :: "builtins \<Rightarrow> pydict \<Rightarrow> string" where
  "ord_status_of B d = upper (py_str B (py_or (dget d ''ord_status'') (PStr [])))"

text \<open>The body of the loop up to the \<open>sleep\<close> (lines 402 to 413): the status to return,
  if any.\<close>

definition poll :: "builtins \<Rightarrow> string list \<Rightarrow> ack_raw \<Rightarrow> string option" where
  "poll B expect raw =
     (case raw of
        GetRaises \<Rightarrow> None
      | NoValue \<Rightarrow> None
      | JsonOther \<Rightarrow> None
      | Unparsable \<Rightarrow>
          (if ord_status_of B Map.empty \<in> set expect then Some (ord_status_of B Map.empty) else None)
      | JsonFalsy \<Rightarrow>
          (if ord_status_of B Map.empty \<in> set expect then Some (ord_status_of B Map.empty) else None)
      | JsonObject d \<Rightarrow>
          (if ord_status_of B d \<in> set expect then Some (ord_status_of B d) else None))"

text \<open>
  The clock counts milliseconds. \<open>channel key k\<close> is what poll number \<open>k\<close> of \<open>key\<close> finds,
  \<open>lag k\<close> the time round \<open>k\<close> of the loop takes beyond the 100 ms of its \<open>sleep\<close>.
  The loop returns its result and the number of polls it issued.
\<close>

record ack_env =
  channel :: "string \<Rightarrow> nat \<Rightarrow> ack_raw"
  lag :: "nat \<Rightarrow> nat"

function wait_loop ::
  "builtins \<Rightarrow> ack_env \<Rightarrow> string \<Rightarrow> string list \<Rightarrow> int \<Rightarrow> nat \<Rightarrow> int \<Rightarrow> string option \<times> nat" where
  "wait_loop B A key expect deadline k now =
     (if now < deadline then
        (case poll B expect (channel A key k) of
           Some s \<Rightarrow> (Some s, Suc k)
         | None \<Rightarrow> wait_loop B A key expect deadline (Suc k) (now + 100 + int (lag A k)))
      else (None, k))"
  by pat_completeness auto
termination
  by (relation "measure (\<lambda>(B, A, key, expect, deadline, k, now). nat (deadline - now))") auto

declare wait_loop.simps [simp del]

definition wait_for_provider_ack ::
  "builtins \<Rightarrow> ack_env \<Rightarrow> int \<Rightarrow> string \<Rightarrow> pyval list \<Rightarrow> int \<Rightarrow> string option \<times> nat" where
  "wait_for_provider_ack B A now any_id expected_statuses timeout_ms =
     (let deadline = now + timeout_ms;
          key = ''provider:ack:'' @ any_id;
          expect = map (\<lambda>s. upper (py_str B s)) expected_statuses
      in wait_loop B A key expect deadline 0 now)"

subsection \<open>What the specification says, and what the traces show\<close>

text \<open>
  The table of section 4.1 of the specification, row by row, first match wins; it is
  compared with \<open>resolve_flow\<close> below. \<open>None\<close> is "unsupported".
\<close>

definition spec_flow_table :: "string \<Rightarrow> string \<Rightarrow> flow option" where
  "spec_flow_table account_type routing_preference =
     (if account_type = ''demo'' then Some Local
      else if account_type = ''live'' \<and> routing_preference = ''rock'' then Some Local
      else if account_type = ''live'' \<and> routing_preference = ''barclays'' then Some Provider
      else if (account_type = ''strategy_provider'' \<or> account_type = ''copy_follower'')
              \<and> routing_preference = ''rock'' then Some Local
      else if (account_type = ''strategy_provider'' \<or> account_type = ''copy_follower'')
              \<and> routing_preference = ''barclays'' then Some Provider
      else if account_type = ''strategy_provider'' \<or> account_type = ''copy_follower''
           then Some Provider
      else if account_type = ''live'' then None
      else None)"

text \<open>
  \<open>adjustedPrice(raw, side, halfSpread)\<close> of section 4.2 of the specification:
  \<open>raw + halfSpread\<close> for BUY, \<open>raw - halfSpread\<close> for SELL; the specification names no
  other side. It is compared with the prices the source computes.
\<close>

definition spec_adjusted_price :: "pyfloat \<Rightarrow> string \<Rightarrow> pyfloat \<Rightarrow> pyfloat option" where
  "spec_adjusted_price raw side half_spread =
     (if side = ''BUY'' then Some (fadd raw half_spread)
      else if side = ''SELL'' then Some (fsub raw half_spread)
      else None)"

text \<open>The \<open>flow\<close> entry of a result, where it has one.\<close>

definition result_flow :: "result \<Rightarrow> string option" where
  "result_flow r = (case r of
                      AddedLocal f _ _ _ _ _ \<Rightarrow> Some f
                    | AddSent f _ _ _ _ \<Rightarrow> Some f
                    | CancelledLocal f _ _ _ \<Rightarrow> Some f
                    | CancelSent f _ _ _ \<Rightarrow> Some f
                    | _ \<Rightarrow> None)"

text \<open>The calls of a trace that write to a store, the queue, the registry or the
  gateway; the others only read.\<close>

definition is_write :: "call \<Rightarrow> bool" where
  "is_write c = (case c of
                   FetchUserConfig _ _ \<Rightarrow> False
                 | FetchGroupData _ _ \<Rightarrow> False
                 | RedisHgetall _ \<Rightarrow> False
                 | RedisHget _ _ \<Rightarrow> False
                 | _ \<Rightarrow> True)"

text \<open>The clock at the loop test of round \<open>k\<close> of \<open>_wait_for_provider_ack\<close>, started
  at \<open>now\<close>: each round sleeps 100 ms and takes \<open>lag\<close> more.\<close>

primrec poll_time :: "ack_env \<Rightarrow> int \<Rightarrow> nat \<Rightarrow> int" where
  "poll_time A now 0 = now"
| "poll_time A now (Suc k) = poll_time A now k + 100 + int (lag A k)"

subsection \<open>Concrete inputs for the examples\<close>

text \<open>A stand-in for the interpreter's conversions, defined on the few values the
  examples use.\<close>

definition sample_builtins :: builtins where
  "sample_builtins =
     \<lparr>float_of_str = map_of [(''2'', Finite 2), (''0.0001'', Finite (1 / 10000)),
                              (''1.2'', Finite (12 / 10)), (''nan'', NaN)],
      float_of_int = (\<lambda>i. Some (Finite (of_int i))),
      str_of_float = (\<lambda>f. case f of
                               Finite r \<Rightarrow> (if r = 12 / 10 then ''1.2'' else ''0.0'')
                             | PInf \<Rightarrow> ''inf'' | NInf \<Rightarrow> ''-inf'' | NaN \<Rightarrow> ''nan'')\<rparr>"

definition empty_world :: world where
  "empty_world = \<lparr>triggers = Map.empty, redis = (\<lambda>k. Map.empty), queue = [], registry = [],
                   calls = [], logs = []\<rparr>"

text \<open>An environment in which nothing fails: every account is in group Standard and
  routes to \<open>rock\<close>, the group has spread 2 and spread_pip 0.0001.\<close>

definition quiet_env :: env where
  "quiet_env =
     \<lparr>user_config = (\<lambda>user_type user_id.
                        map_of [(''group'', PStr ''Standard''), (''sending_orders'', PStr ''rock'')]),
      group_data = (\<lambda>symbol grp.
                       map_of [(''spread'', PFloat (Finite 2)),
                               (''spread_pip'', PFloat (Finite (1 / 10000)))]),
      raises = (\<lambda>s. False),
      upsert_result = True,
      send_result = (True, ''persistent''),
      verify_read = Some ''TAKEPROFIT-CANCEL''\<rparr>"

text \<open>The same with another routing preference in every account's configuration.\<close>

definition routed_env :: "pyval \<Rightarrow> env" where
  "routed_env pref =
     quiet_env\<lparr>user_config := (\<lambda>user_type user_id.
                    map_of [(''group'', PStr ''Standard''), (''sending_orders'', pref)])\<rparr>"

text \<open>The request of the specification's first example, for an account type and a
  take-profit.\<close>

definition sample_add :: "string \<Rightarrow> pyval \<Rightarrow> pydict" where
  "sample_add user_type take_profit =
     map_of [(''order_id'', PStr ''O1''), (''user_id'', PStr ''U1''),
             (''user_type'', PStr user_type), (''symbol'', PStr ''eurusd''),
             (''order_type'', PStr ''buy''), (''take_profit'', take_profit)]"

definition sample_cancel :: "string \<Rightarrow> pydict" where
  "sample_cancel user_type =
     map_of [(''order_id'', PStr ''O1''), (''user_id'', PStr ''U1''),
             (''user_type'', PStr user_type), (''symbol'', PStr ''eurusd''),
             (''order_type'', PStr ''buy''), (''takeprofit_id'', PStr ''T1'')]"

text \<open>A group whose spread is negative.\<close>

definition negative_spread_env :: env where
  "negative_spread_env =
     quiet_env\<lparr>group_data := (\<lambda>symbol grp.
                   map_of [(''spread'', PFloat (Finite (- 2))), (''spread_pip'', PFloat (Finite 1))])\<rparr>"

text \<open>The trigger store accepts the upsert, and both cache writes and the publish
  raise.\<close>

definition mirror_failure_env :: env where
  "mirror_failure_env =
     quiet_env\<lparr>raises := (\<lambda>s. s = HsetOrderData \<or> s = HsetHoldings \<or> s = PublishSet)\<rparr>"

text \<open>Every account routes to \<open>barclays\<close>; in the second environment the write of the
  routing status raises.\<close>

definition barclays_env :: env where
  "barclays_env = routed_env (PStr ''barclays'')"

definition mark_failure_env :: env where
  "mark_failure_env = barclays_env\<lparr>raises := (\<lambda>s. s = MarkCancel)\<rparr>"

text \<open>Every account routes to \<open>barclays\<close> and the gateway refuses the send.\<close>

definition send_failure_env :: env where
  "send_failure_env = barclays_env\<lparr>send_result := (False, ''unavailable'')\<rparr>"

text \<open>A key that holds a value which is not JSON, at every poll.\<close>

definition garbled_channel :: ack_env where
  "garbled_channel = \<lparr>channel = (\<lambda>key k. Unparsable), lag = (\<lambda>k. 0)\<rparr>"

text \<open>A key that holds nothing at the first two polls and a cancelled order from the
  third on.\<close>

definition cancelled_channel :: ack_env where
  "cancelled_channel =
     \<lparr>channel = (\<lambda>key k. if k < 2 then NoValue
                          else JsonObject (map_of [(''ord_status'', PStr ''cancelled'')])),
      lag = (\<lambda>k. 0)\<rparr>"

text \<open>A request that carries what both operations require, for an order id.\<close>

definition sample_both :: "string \<Rightarrow> pydict" where
  "sample_both order_id =
     map_of [(''order_id'', PStr order_id), (''user_id'', PStr ''U1''),
             (''user_type'', PStr ''demo''), (''symbol'', PStr ''eurusd''),
             (''order_type'', PStr ''buy''), (''take_profit'', PFloat (Finite (12 / 10))),
             (''takeprofit_id'', PStr ''T1'')]"

section \<open>Properties\<close>

lemmas str_defs = upper_def lower_def upper_char_def lower_char_def upper_alpha_def lower_alpha_def
  strip_def is_space_def

subsection \<open>What each external call leaves in the world\<close>

lemma called_simps [simp]:
  "calls (called c w) = calls w @ [c]"
  "triggers (called c w) = triggers w"
  "redis (called c w) = redis w"
  "queue (called c w) = queue w"
  "registry (called c w) = registry w"
  "logs (called c w) = logs w"
  by (simp_all add: called_def)

lemma logged_simps [simp]:
  "calls (logged l m w) = calls w"
  "triggers (logged l m w) = triggers w"
  "redis (logged l m w) = redis w"
  "queue (logged l m w) = queue w"
  "registry (logged l m w) = registry w"
  "logs (logged l m w) = logs w @ [(l, m)]"
  by (simp_all add: logged_def)

lemma try_hset_simps [simp]:
  "calls (try_hset E s k m w) = calls w @ [RedisHset k m]"
  "triggers (try_hset E s k m w) = triggers w"
  "redis (try_hset E s k m w) = (if raises E s then redis w else run_cmd (Hset k m) (redis w))"
  "queue (try_hset E s k m w) = queue w"
  "registry (try_hset E s k m w) = registry w"
  "logs (try_hset E s k m w) = logs w"
  by (simp_all add: try_hset_def Let_def)

lemma exec_pipeline_simps [simp]:
  "fst (exec_pipeline E s cs w) = (\<not> raises E s)"
  "calls (snd (exec_pipeline E s cs w)) = calls w @ [RedisPipeline cs]"
  "triggers (snd (exec_pipeline E s cs w)) = triggers w"
  "redis (snd (exec_pipeline E s cs w)) = (if raises E s then redis w else run_cmds cs (redis w))"
  "queue (snd (exec_pipeline E s cs w)) = queue w"
  "registry (snd (exec_pipeline E s cs w)) = registry w"
  "logs (snd (exec_pipeline E s cs w)) = logs w"
  by (simp_all add: exec_pipeline_def Let_def)

lemma try_publish_simps [simp]:
  "calls (try_publish E s msg m w) = calls w @ [PublishDbUpdate msg]"
  "triggers (try_publish E s msg m w) = triggers w"
  "redis (try_publish E s msg m w) = redis w"
  "queue (try_publish E s msg m w) = (if raises E s then queue w else queue w @ [msg])"
  "registry (try_publish E s msg m w) = registry w"
  by (simp_all add: try_publish_def Let_def)

lemma try_add_lifecycle_simps [simp]:
  "calls (try_add_lifecycle E s oid ext kind m w) = calls w @ [AddLifecycleId oid ext kind]"
  "triggers (try_add_lifecycle E s oid ext kind m w) = triggers w"
  "redis (try_add_lifecycle E s oid ext kind m w) = redis w"
  "queue (try_add_lifecycle E s oid ext kind m w) = queue w"
  "registry (try_add_lifecycle E s oid ext kind m w) =
     (if raises E s then registry w else registry w @ [(oid, ext, kind)])"
  by (simp_all add: try_add_lifecycle_def Let_def)

lemma upsert_order_triggers_simps [simp]:
  "fst (upsert_order_triggers E tr w) = upsert_result E"
  "calls (snd (upsert_order_triggers E tr w)) = calls w @ [UpsertOrderTriggers tr]"
  "triggers (snd (upsert_order_triggers E tr w)) =
     (if upsert_result E then (triggers w)(tr_order_id tr \<mapsto> tr) else triggers w)"
  "redis (snd (upsert_order_triggers E tr w)) = redis w"
  "queue (snd (upsert_order_triggers E tr w)) = queue w"
  "registry (snd (upsert_order_triggers E tr w)) = registry w"
  by (simp_all add: upsert_order_triggers_def Let_def)

lemma remove_takeprofit_trigger_simps [simp]:
  "calls (remove_takeprofit_trigger E oid w) = calls w @ [RemoveTakeprofitTrigger oid]"
  "triggers (remove_takeprofit_trigger E oid w) =
     (if raises E RemoveTrigger then triggers w else (triggers w)(oid := None))"
  "redis (remove_takeprofit_trigger E oid w) = redis w"
  "queue (remove_takeprofit_trigger E oid w) = queue w"
  "registry (remove_takeprofit_trigger E oid w) = registry w"
  by (simp_all add: remove_takeprofit_trigger_def Let_def)

lemma compute_half_spread_simps [simp]:
  "calls (snd (compute_half_spread B E symbol grp w)) = calls w @ [FetchGroupData symbol grp]"
  "triggers (snd (compute_half_spread B E symbol grp w)) = triggers w"
  "redis (snd (compute_half_spread B E symbol grp w)) = redis w"
  "queue (snd (compute_half_spread B E symbol grp w)) = queue w"
  "registry (snd (compute_half_spread B E symbol grp w)) = registry w"
  by (simp_all add: compute_half_spread_def Let_def split: sum.splits)

lemma fill_from_cache_simps [simp]:
  "calls (snd (fill_from_cache B E oid q e w)) =
     (if q = None \<or> e = None then calls w @ [RedisHgetall (order_data_key oid)] else calls w)"
  "triggers (snd (fill_from_cache B E oid q e w)) = triggers w"
  "redis (snd (fill_from_cache B E oid q e w)) = redis w"
  "queue (snd (fill_from_cache B E oid q e w)) = queue w"
  "registry (snd (fill_from_cache B E oid q e w)) = registry w"
  by (simp_all add: fill_from_cache_def Let_def)

lemma contract_value_of_simps [simp]:
  "calls (snd (contract_value_of B E symbol grp cv q e w)) =
     (if cv = None then calls w @ [FetchGroupData symbol grp] else calls w)"
  "triggers (snd (contract_value_of B E symbol grp cv q e w)) = triggers w"
  "redis (snd (contract_value_of B E symbol grp cv q e w)) = redis w"
  "queue (snd (contract_value_of B E symbol grp cv q e w)) = queue w"
  "registry (snd (contract_value_of B E symbol grp cv q e w)) = registry w"
  by (simp_all add: contract_value_of_def Let_def split: option.splits sum.splits)

lemma verify_status_simps [simp]:
  "calls (verify_status E oid w) = calls w @ [RedisHget (order_data_key oid) ''status'']"
  "triggers (verify_status E oid w) = triggers w"
  "redis (verify_status E oid w) = redis w"
  "queue (verify_status E oid w) = queue w"
  "registry (verify_status E oid w) = registry w"
  by (simp_all add: verify_status_def Let_def)

lemma read_config_snd [simp]:
  "snd (read_config E ut uid w) = called (FetchUserConfig ut uid) w"
  by (simp add: read_config_def Let_def split: pyval.splits)

subsection \<open>The half spread\<close>

lemma fst_compute_half_spread:
  "fst (compute_half_spread B E symbol grp w) =
     (case half_spread_body B (raises E FetchGroupHalfSpread) (group_data E symbol grp) of
        Inr h \<Rightarrow> h | Inl e \<Rightarrow> Finite 0)"
  by (simp add: compute_half_spread_def Let_def split: sum.splits)

lemma safe_float_Inr: "py_float B v = Inr a \<Longrightarrow> safe_float B v = Inr (Some a)"
  by (auto simp: safe_float_def py_float_def split: pyval.splits)

lemma safe_float_Inl:
  "py_float B v = Inl e \<Longrightarrow> safe_float B v = Inr None \<or> safe_float B v = Inl e"
  by (cases e) (auto simp: safe_float_def)

text \<open>
  C5. The half spread is \<open>spread * spread_pip / 2\<close> when \<open>float\<close> converts both
  parameters of the group, and \<open>0.0\<close> when the lookup raises, when a parameter is
  absent (\<open>float(None)\<close> is a TypeError) or when \<open>float\<close> does not convert it; every
  exception of the body ends in \<open>0.0\<close>, so the function always returns a float.
\<close>

theorem half_spread_formula:
  "(\<forall>e. half_spread_body B (raises E FetchGroupHalfSpread) (group_data E symbol grp) = Inl e
        \<longrightarrow> fst (compute_half_spread B E symbol grp w) = Finite 0)
   \<and> (raises E FetchGroupHalfSpread \<longrightarrow> fst (compute_half_spread B E symbol grp w) = Finite 0)
   \<and> (\<forall>e. py_float B (dget (group_data E symbol grp) ''spread'') = Inl e
        \<longrightarrow> fst (compute_half_spread B E symbol grp w) = Finite 0)
   \<and> (\<forall>e. py_float B (dget (group_data E symbol grp) ''spread_pip'') = Inl e
        \<longrightarrow> fst (compute_half_spread B E symbol grp w) = Finite 0)
   \<and> (\<forall>a b. \<not> raises E FetchGroupHalfSpread
        \<and> py_float B (dget (group_data E symbol grp) ''spread'') = Inr a
        \<and> py_float B (dget (group_data E symbol grp) ''spread_pip'') = Inr b
        \<longrightarrow> fst (compute_half_spread B E symbol grp w) = fhalve (fmul a b))
   \<and> (\<forall>a b. \<not> raises E FetchGroupHalfSpread
        \<and> py_float B (dget (group_data E symbol grp) ''spread'') = Inr (Finite a)
        \<and> py_float B (dget (group_data E symbol grp) ''spread_pip'') = Inr (Finite b)
        \<longrightarrow> fst (compute_half_spread B E symbol grp w) = Finite (a * b / 2))"
proof (intro conjI allI impI)
  fix e
  assume "half_spread_body B (raises E FetchGroupHalfSpread) (group_data E symbol grp) = Inl e"
  then show "fst (compute_half_spread B E symbol grp w) = Finite 0"
    by (simp add: fst_compute_half_spread)
next
  assume "raises E FetchGroupHalfSpread"
  then show "fst (compute_half_spread B E symbol grp w) = Finite 0"
    by (simp add: fst_compute_half_spread half_spread_body_def)
next
  fix e
  assume "py_float B (dget (group_data E symbol grp) ''spread'') = Inl e"
  from safe_float_Inl [OF this] show "fst (compute_half_spread B E symbol grp w) = Finite 0"
    by (auto simp: fst_compute_half_spread half_spread_body_def split: sum.splits option.splits)
next
  fix e
  assume "py_float B (dget (group_data E symbol grp) ''spread_pip'') = Inl e"
  from safe_float_Inl [OF this] show "fst (compute_half_spread B E symbol grp w) = Finite 0"
    by (auto simp: fst_compute_half_spread half_spread_body_def split: sum.splits option.splits)
next
  fix a b
  assume "\<not> raises E FetchGroupHalfSpread
        \<and> py_float B (dget (group_data E symbol grp) ''spread'') = Inr a
        \<and> py_float B (dget (group_data E symbol grp) ''spread_pip'') = Inr b"
  then show "fst (compute_half_spread B E symbol grp w) = fhalve (fmul a b)"
    by (simp add: fst_compute_half_spread half_spread_body_def safe_float_Inr)
next
  fix a b
  assume "\<not> raises E FetchGroupHalfSpread
        \<and> py_float B (dget (group_data E symbol grp) ''spread'') = Inr (Finite a)
        \<and> py_float B (dget (group_data E symbol grp) ''spread_pip'') = Inr (Finite b)"
  then show "fst (compute_half_spread B E symbol grp w) = Finite (a * b / 2)"
    by (simp add: fst_compute_half_spread half_spread_body_def safe_float_Inr fmul_def fhalve_def)
qed

text \<open>The specification's example: spread 2 and spread_pip 0.0001 give 0.0001.\<close>

theorem half_spread_formula_witness:
  "fst (compute_half_spread sample_builtins quiet_env ''EURUSD'' (PStr ''Standard'') empty_world)
     = Finite (1 / 10000)"
  using half_spread_formula [of sample_builtins quiet_env "''EURUSD''" "PStr ''Standard''" empty_world]
  by (simp add: quiet_env_def dget_def py_float_def fmul_def fhalve_def)

text \<open>
  C6, as stated, fails: with spread \<open>-2\<close> and spread_pip \<open>1\<close> the half spread is \<open>-1\<close>.
\<close>

theorem half_spread_negative_counterexample:
  "\<not> fge_zero (fst (compute_half_spread sample_builtins negative_spread_env ''EURUSD''
                       (PStr ''Standard'') empty_world))"
  by (simp add: fst_compute_half_spread half_spread_body_def negative_spread_env_def quiet_env_def
      dget_def safe_float_def py_float_def fmul_def fhalve_def fge_zero_def)

text \<open>
  C6, amended. The half spread is at least zero when the function degrades to \<open>0.0\<close>
  (the lookup raises, a parameter is absent or \<open>float\<close> does not convert it); when
  both parameters convert to finite numbers it is at least zero exactly when their
  product is, so it is negative for finite parameters of opposite sign.
\<close>

theorem half_spread_sign:
  "(raises E FetchGroupHalfSpread
      \<or> (\<exists>e. py_float B (dget (group_data E symbol grp) ''spread'') = Inl e)
      \<or> (\<exists>e. py_float B (dget (group_data E symbol grp) ''spread_pip'') = Inl e)
     \<longrightarrow> fge_zero (fst (compute_half_spread B E symbol grp w)))
   \<and> (\<forall>a b. \<not> raises E FetchGroupHalfSpread
        \<and> py_float B (dget (group_data E symbol grp) ''spread'') = Inr (Finite a)
        \<and> py_float B (dget (group_data E symbol grp) ''spread_pip'') = Inr (Finite b)
        \<longrightarrow> (fge_zero (fst (compute_half_spread B E symbol grp w)) \<longleftrightarrow> 0 \<le> a * b))"
proof (intro conjI allI impI)
  assume "raises E FetchGroupHalfSpread
      \<or> (\<exists>e. py_float B (dget (group_data E symbol grp) ''spread'') = Inl e)
      \<or> (\<exists>e. py_float B (dget (group_data E symbol grp) ''spread_pip'') = Inl e)"
  then have "fst (compute_half_spread B E symbol grp w) = Finite 0"
    using safe_float_Inl [of B "dget (group_data E symbol grp) ''spread''"]
      safe_float_Inl [of B "dget (group_data E symbol grp) ''spread_pip''"]
    by (auto simp: fst_compute_half_spread half_spread_body_def split: sum.splits option.splits)
  then show "fge_zero (fst (compute_half_spread B E symbol grp w))"
    by (simp add: fge_zero_def)
next
  fix a b
  assume "\<not> raises E FetchGroupHalfSpread
        \<and> py_float B (dget (group_data E symbol grp) ''spread'') = Inr (Finite a)
        \<and> py_float B (dget (group_data E symbol grp) ''spread_pip'') = Inr (Finite b)"
  then have "fst (compute_half_spread B E symbol grp w) = Finite (a * b / 2)"
    by (simp add: fst_compute_half_spread half_spread_body_def safe_float_Inr fmul_def fhalve_def)
  then show "fge_zero (fst (compute_half_spread B E symbol grp w)) \<longleftrightarrow> 0 \<le> a * b"
    by (simp add: fge_zero_def)
qed

theorem half_spread_sign_witness:
  "fge_zero (fst (compute_half_spread sample_builtins quiet_env ''EURUSD'' (PStr ''Standard'')
                    empty_world))
   \<and> \<not> fge_zero (fst (compute_half_spread sample_builtins negative_spread_env ''EURUSD''
                          (PStr ''Standard'') empty_world))"
  using half_spread_sign [of quiet_env sample_builtins "''EURUSD''" "PStr ''Standard''" empty_world,
      THEN conjunct2, rule_format, of 2 "1 / 10000"]
    half_spread_sign [of negative_spread_env sample_builtins "''EURUSD''" "PStr ''Standard''"
      empty_world, THEN conjunct2, rule_format, of "- 2" 1]
  by (simp add: quiet_env_def negative_spread_env_def dget_def py_float_def)

subsection \<open>Checked payloads and the two flows\<close>

lemma resolve_flow_table: "resolve_flow ut so = spec_flow_table ut so"
  by (simp add: resolve_flow_def spec_flow_table_def)

lemma filter_missing_empty:
  "(\<forall>k\<in>set ks. payload k \<noteq> None) \<Longrightarrow> filter (\<lambda>k. payload k = None) ks = []"
  by (induction ks) auto

lemma add_takeprofit_checked:
  assumes "\<forall>k\<in>set add_required. payload k \<noteq> None"
    and "upper (py_str B (dget payload ''order_type'')) \<in> {''BUY'', ''SELL''}"
    and "safe_float B (dget payload ''take_profit'') = Inr (Some tp_raw)"
    and "\<not> fle_zero tp_raw"
  shows "add_takeprofit B E payload w =
           add_routed B E payload (py_str B (dget payload ''order_id''))
             (py_str B (dget payload ''user_id'')) (lower (py_str B (dget payload ''user_type'')))
             (upper (py_str B (dget payload ''symbol'')))
             (upper (py_str B (dget payload ''order_type''))) tp_raw w"
  using assms(2-4) filter_missing_empty [OF assms(1)]
  by (auto simp: add_takeprofit_def Let_def)

lemma cancel_takeprofit_checked:
  assumes "\<forall>k\<in>set cancel_required. payload k \<noteq> None"
    and "strip (upper (py_str B (dget payload ''order_type''))) \<in> {''BUY'', ''SELL''}"
  shows "cancel_takeprofit B E payload w =
           cancel_routed B E payload (strip (py_str B (dget payload ''order_id'')))
             (strip (py_str B (dget payload ''user_id'')))
             (strip (lower (py_str B (dget payload ''user_type''))))
             (strip (upper (py_str B (dget payload ''symbol''))))
             (strip (upper (py_str B (dget payload ''order_type'')))) w"
  using assms(2) filter_missing_empty [OF assms(1)]
  by (auto simp: cancel_takeprofit_def Let_def)

text \<open>The results and the traces of the two flows of \<open>add_takeprofit\<close>.\<close>

lemma add_local_result:
  "fst (add_local B E order_id user_id user_type symbol side tp h w) =
     (if upsert_result E
      then AddedLocal ''local'' order_id symbol side tp
             (if side = ''BUY'' then fadd tp h else fsub tp h)
      else UpsertTriggersFailed)"
  by (simp add: add_local_def upsert_order_triggers_def Let_def)

lemma add_provider_result:
  "fst (add_provider B E payload order_id user_id user_type symbol side grp tp h w) = Inr r \<Longrightarrow>
     (\<exists>via. r = ProviderSendFailed via) \<or>
     r = AddSent ''provider'' order_id symbol side (if side = ''BUY'' then fadd tp h else fsub tp h)"
  by (auto simp: add_provider_def Let_def split_beta split: sum.splits bool.splits)

lemma add_provider_triggers:
  "triggers (snd (add_provider B E payload order_id user_id user_type symbol side grp tp h w))
     = triggers w"
  by (simp add: add_provider_def Let_def split_beta split: sum.splits bool.splits)

lemma add_local_calls:
  "calls (snd (add_local B E order_id user_id user_type symbol side tp h w)) =
     calls w @ [UpsertOrderTriggers
        \<lparr>tr_order_id = order_id, tr_symbol = symbol, tr_side = side,
                tr_user_type = user_type, tr_user_id = user_id, tr_stop_loss = None,
                tr_take_profit = tp, tr_score_stop_loss = None,
                tr_score_take_profit = (if side = ''BUY'' then fadd tp h else fsub tp h)\<rparr>]
     @ (if upsert_result E then
          [RedisHset (order_data_key order_id)
             [(''symbol'', symbol), (''order_type'', side), (''user_type'', user_type),
              (''user_id'', user_id), (''take_profit'', str_of_float B tp)],
           RedisHset (holdings_key user_type user_id order_id)
             [(''take_profit'', str_of_float B tp)],
           PublishDbUpdate
             [(''type'', PStr ''ORDER_TAKEPROFIT_SET''), (''order_id'', PStr order_id),
              (''user_id'', PStr user_id), (''user_type'', PStr user_type),
              (''take_profit'', PFloat tp)]]
        else [])"
  by (simp add: add_local_def Let_def split_beta split: bool.splits)

lemma cancel_local_result:
  "fst (cancel_local E order_id user_id user_type symbol side w) =
     CancelledLocal ''local'' order_id symbol side"
  by (simp add: cancel_local_def Let_def)

lemma cancel_local_calls:
  "calls (snd (cancel_local E order_id user_id user_type symbol side w)) =
     calls w @ [RemoveTakeprofitTrigger order_id,
       RedisPipeline
         [Hdel (order_data_key order_id) ''take_profit'',
          Hdel (holdings_key user_type user_id order_id) ''take_profit'',
          Hset (order_data_key order_id)
            [(''status'', ''OPEN''), (''symbol'', symbol), (''order_type'', side)],
          Hset (holdings_key user_type user_id order_id) [(''status'', ''OPEN'')]],
       PublishDbUpdate
         [(''type'', PStr ''ORDER_TAKEPROFIT_CANCEL''), (''order_id'', PStr order_id),
          (''user_id'', PStr user_id), (''user_type'', PStr user_type)]]"
  by (simp add: cancel_local_def Let_def)

lemma cancel_provider_result:
  "fst (cancel_provider B E payload order_id user_id user_type symbol side w) =
     (if \<not> fst (send_result E) then ProviderSendFailed (snd (send_result E))
      else if raises E MarkCancel then RedisStatusUpdateFailed
      else CancelSent ''provider'' order_id symbol side)"
  by (simp add: cancel_provider_def Let_def split_beta split: bool.splits)

lemma cancel_provider_triggers:
  "triggers (snd (cancel_provider B E payload order_id user_id user_type symbol side w))
     = triggers w"
  by (simp add: cancel_provider_def Let_def split_beta split: bool.splits)

lemma read_config_eq:
  "fst (read_config E ut uid w) = x \<Longrightarrow>
     read_config E ut uid w = (x, called (FetchUserConfig ut uid) w)"
  by (metis prod.collapse read_config_snd)

lemma add_routed_unsupported:
  "fst (read_config E user_type user_id w) = Inr (grp, so) \<Longrightarrow>
   resolve_flow user_type so = None \<Longrightarrow>
     add_routed B E payload order_id user_id user_type symbol side tp w =
       (Inr (UnsupportedFlow user_type so), called (FetchUserConfig user_type user_id) w)"
  using read_config_eq [of E user_type user_id w "Inr (grp, so)"]
  by (simp add: add_routed_def)

lemma add_routed_local:
  "fst (read_config E user_type user_id w) = Inr (grp, so) \<Longrightarrow>
   resolve_flow user_type so = Some Local \<Longrightarrow>
     add_routed B E payload order_id user_id user_type symbol side tp w =
       (let w1 = called (FetchUserConfig user_type user_id) w;
            hw = compute_half_spread B E symbol grp w1;
            rw = add_local B E order_id user_id user_type symbol side tp (fst hw) (snd hw)
        in (Inr (fst rw), snd rw))"
  using read_config_eq [of E user_type user_id w "Inr (grp, so)"]
  by (simp add: add_routed_def split_beta Let_def)

lemma add_routed_provider:
  "fst (read_config E user_type user_id w) = Inr (grp, so) \<Longrightarrow>
   resolve_flow user_type so = Some Provider \<Longrightarrow>
     add_routed B E payload order_id user_id user_type symbol side tp w =
       (let w1 = called (FetchUserConfig user_type user_id) w;
            hw = compute_half_spread B E symbol grp w1
        in add_provider B E payload order_id user_id user_type symbol side grp tp (fst hw) (snd hw))"
  using read_config_eq [of E user_type user_id w "Inr (grp, so)"]
  by (simp add: add_routed_def split_beta Let_def)

lemma cancel_routed_unsupported:
  "fst (read_config E user_type user_id w) = Inr (grp, so) \<Longrightarrow>
   resolve_flow user_type so = None \<Longrightarrow>
     cancel_routed B E payload order_id user_id user_type symbol side w =
       (Inr (UnsupportedFlow user_type so), called (FetchUserConfig user_type user_id) w)"
  using read_config_eq [of E user_type user_id w "Inr (grp, so)"]
  by (simp add: cancel_routed_def)

lemma cancel_routed_local:
  "fst (read_config E user_type user_id w) = Inr (grp, so) \<Longrightarrow>
   resolve_flow user_type so = Some Local \<Longrightarrow>
     cancel_routed B E payload order_id user_id user_type symbol side w =
       (let rw = cancel_local E order_id user_id user_type symbol side
                   (called (FetchUserConfig user_type user_id) w)
        in (Inr (fst rw), snd rw))"
  using read_config_eq [of E user_type user_id w "Inr (grp, so)"]
  by (simp add: cancel_routed_def split_beta Let_def)

lemma cancel_routed_provider:
  "fst (read_config E user_type user_id w) = Inr (grp, so) \<Longrightarrow>
   resolve_flow user_type so = Some Provider \<Longrightarrow>
     cancel_routed B E payload order_id user_id user_type symbol side w =
       (let rw = cancel_provider B E payload order_id user_id user_type symbol side
                   (called (FetchUserConfig user_type user_id) w)
        in (Inr (fst rw), snd rw))"
  using read_config_eq [of E user_type user_id w "Inr (grp, so)"]
  by (simp add: cancel_routed_def split_beta Let_def)

lemmas sample_defs = sample_builtins_def quiet_env_def routed_env_def sample_add_def
  sample_cancel_def empty_world_def

subsection \<open>Flow resolution\<close>

text \<open>
  C1. \<open>resolve_flow\<close>, the chain of lines 56 to 70 and 257 to 271, agrees with the
  decision table of section 4.1 on every pair of account type and routing
  preference. For a payload that passes the checks of \<open>add_takeprofit\<close> (of
  \<open>cancel_takeprofit\<close>) and a configuration whose routing preference is a string or
  unset: where the table says unsupported, the operation returns \<open>unsupported_flow\<close>
  with the pair, and the world is the one before with the configuration read
  recorded, so nothing is written; where it says local, the result is on the local
  flow (or the failed upsert) and the gateway is not called; where it says provider,
  the result is on the provider flow (or a failure of the send or, for cancel, of the
  status write) and the trigger store is untouched.
\<close>

theorem flow_resolution:
  "resolve_flow user_type sending_orders = spec_flow_table user_type sending_orders
   \<and> ((\<forall>k\<in>set add_required. payload k \<noteq> None)
        \<and> upper (py_str B (dget payload ''order_type'')) \<in> {''BUY'', ''SELL''}
        \<and> safe_float B (dget payload ''take_profit'') = Inr (Some tp_raw) \<and> \<not> fle_zero tp_raw
        \<and> user_type = lower (py_str B (dget payload ''user_type''))
        \<and> user_id = py_str B (dget payload ''user_id'')
        \<and> fst (read_config E user_type user_id w) = Inr (grp, sending_orders)
       \<longrightarrow> (case spec_flow_table user_type sending_orders of
              None \<Rightarrow>
                add_takeprofit B E payload w =
                  (Inr (UnsupportedFlow user_type sending_orders),
                   called (FetchUserConfig user_type user_id) w)
            | Some Local \<Rightarrow>
                (\<exists>r. fst (add_takeprofit B E payload w) = Inr r
                      \<and> (r = UpsertTriggersFailed \<or> result_flow r = Some ''local''))
                \<and> (\<forall>p. SendProviderOrder p \<in> set (calls (snd (add_takeprofit B E payload w)))
                         \<longrightarrow> SendProviderOrder p \<in> set (calls w))
            | Some Provider \<Rightarrow>
                (\<forall>r. fst (add_takeprofit B E payload w) = Inr r
                      \<longrightarrow> (\<exists>via. r = ProviderSendFailed via) \<or> result_flow r = Some ''provider'')
                \<and> triggers (snd (add_takeprofit B E payload w)) = triggers w))
   \<and> ((\<forall>k\<in>set cancel_required. cpayload k \<noteq> None)
        \<and> strip (upper (py_str B (dget cpayload ''order_type''))) \<in> {''BUY'', ''SELL''}
        \<and> user_type = strip (lower (py_str B (dget cpayload ''user_type'')))
        \<and> user_id = strip (py_str B (dget cpayload ''user_id''))
        \<and> fst (read_config E user_type user_id w) = Inr (grp, sending_orders)
       \<longrightarrow> (case spec_flow_table user_type sending_orders of
              None \<Rightarrow>
                cancel_takeprofit B E cpayload w =
                  (Inr (UnsupportedFlow user_type sending_orders),
                   called (FetchUserConfig user_type user_id) w)
            | Some Local \<Rightarrow>
                (\<exists>r. fst (cancel_takeprofit B E cpayload w) = Inr r
                      \<and> result_flow r = Some ''local'')
                \<and> (\<forall>p. SendProviderOrder p \<in> set (calls (snd (cancel_takeprofit B E cpayload w)))
                         \<longrightarrow> SendProviderOrder p \<in> set (calls w))
            | Some Provider \<Rightarrow>
                (\<exists>r. fst (cancel_takeprofit B E cpayload w) = Inr r
                      \<and> ((\<exists>via. r = ProviderSendFailed via) \<or> r = RedisStatusUpdateFailed
                          \<or> result_flow r = Some ''provider''))
                \<and> triggers (snd (cancel_takeprofit B E cpayload w)) = triggers w))"
proof (intro conjI impI)
  show "resolve_flow user_type sending_orders = spec_flow_table user_type sending_orders"
    by (rule resolve_flow_table)
next
  assume h: "(\<forall>k\<in>set add_required. payload k \<noteq> None)
        \<and> upper (py_str B (dget payload ''order_type'')) \<in> {''BUY'', ''SELL''}
        \<and> safe_float B (dget payload ''take_profit'') = Inr (Some tp_raw) \<and> \<not> fle_zero tp_raw
        \<and> user_type = lower (py_str B (dget payload ''user_type''))
        \<and> user_id = py_str B (dget payload ''user_id'')
        \<and> fst (read_config E user_type user_id w) = Inr (grp, sending_orders)"
  define order_id where "order_id = py_str B (dget payload ''order_id'')"
  define symbol where "symbol = upper (py_str B (dget payload ''symbol''))"
  define side where "side = upper (py_str B (dget payload ''order_type''))"
  from h have eq: "add_takeprofit B E payload w =
      add_routed B E payload order_id user_id user_type symbol side tp_raw w"
    by (simp add: add_takeprofit_checked order_id_def symbol_def side_def)
  from h have rc: "fst (read_config E user_type user_id w) = Inr (grp, sending_orders)"
    by blast
  show "case spec_flow_table user_type sending_orders of
              None \<Rightarrow>
                add_takeprofit B E payload w =
                  (Inr (UnsupportedFlow user_type sending_orders),
                   called (FetchUserConfig user_type user_id) w)
            | Some Local \<Rightarrow>
                (\<exists>r. fst (add_takeprofit B E payload w) = Inr r
                      \<and> (r = UpsertTriggersFailed \<or> result_flow r = Some ''local''))
                \<and> (\<forall>p. SendProviderOrder p \<in> set (calls (snd (add_takeprofit B E payload w)))
                         \<longrightarrow> SendProviderOrder p \<in> set (calls w))
            | Some Provider \<Rightarrow>
                (\<forall>r. fst (add_takeprofit B E payload w) = Inr r
                      \<longrightarrow> (\<exists>via. r = ProviderSendFailed via) \<or> result_flow r = Some ''provider'')
                \<and> triggers (snd (add_takeprofit B E payload w)) = triggers w"
  proof (cases "resolve_flow user_type sending_orders")
    case None
    then show ?thesis
      using add_routed_unsupported [OF rc None] by (simp add: eq resolve_flow_table [symmetric])
  next
    case (Some fl)
    show ?thesis
    proof (cases fl)
      case Local
      with Some have rf: "resolve_flow user_type sending_orders = Some Local" by simp
      show ?thesis
        using add_routed_local [OF rc rf, of B payload order_id symbol side tp_raw]
        by (simp add: eq resolve_flow_table [symmetric] rf Let_def add_local_result
            add_local_calls result_flow_def)
    next
      case Provider
      with Some have rf: "resolve_flow user_type sending_orders = Some Provider" by simp
      define hw where
        "hw = compute_half_spread B E symbol grp (called (FetchUserConfig user_type user_id) w)"
      have eq2: "add_takeprofit B E payload w =
          add_provider B E payload order_id user_id user_type symbol side grp tp_raw
            (fst hw) (snd hw)"
        using add_routed_provider [OF rc rf, of B payload order_id symbol side tp_raw]
        by (simp add: eq Let_def hw_def)
      have a: "\<forall>r. fst (add_takeprofit B E payload w) = Inr r
                 \<longrightarrow> (\<exists>via. r = ProviderSendFailed via) \<or> result_flow r = Some ''provider''"
      proof (intro allI impI)
        fix r
        assume "fst (add_takeprofit B E payload w) = Inr r"
        with eq2 have "fst (add_provider B E payload order_id user_id user_type symbol side grp
                              tp_raw (fst hw) (snd hw)) = Inr r"
          by simp
        from add_provider_result [OF this]
        show "(\<exists>via. r = ProviderSendFailed via) \<or> result_flow r = Some ''provider''"
          by (auto simp: result_flow_def)
      qed
      have b: "triggers (snd (add_takeprofit B E payload w)) = triggers w"
        by (simp add: eq2 add_provider_triggers hw_def)
      show ?thesis
        using a b by (simp add: resolve_flow_table [symmetric] rf)
    qed
  qed
next
  assume h: "(\<forall>k\<in>set cancel_required. cpayload k \<noteq> None)
        \<and> strip (upper (py_str B (dget cpayload ''order_type''))) \<in> {''BUY'', ''SELL''}
        \<and> user_type = strip (lower (py_str B (dget cpayload ''user_type'')))
        \<and> user_id = strip (py_str B (dget cpayload ''user_id''))
        \<and> fst (read_config E user_type user_id w) = Inr (grp, sending_orders)"
  define order_id where "order_id = strip (py_str B (dget cpayload ''order_id''))"
  define symbol where "symbol = strip (upper (py_str B (dget cpayload ''symbol'')))"
  define side where "side = strip (upper (py_str B (dget cpayload ''order_type'')))"
  from h have eq: "cancel_takeprofit B E cpayload w =
      cancel_routed B E cpayload order_id user_id user_type symbol side w"
    by (simp add: cancel_takeprofit_checked order_id_def symbol_def side_def)
  from h have rc: "fst (read_config E user_type user_id w) = Inr (grp, sending_orders)"
    by blast
  show "case spec_flow_table user_type sending_orders of
              None \<Rightarrow>
                cancel_takeprofit B E cpayload w =
                  (Inr (UnsupportedFlow user_type sending_orders),
                   called (FetchUserConfig user_type user_id) w)
            | Some Local \<Rightarrow>
                (\<exists>r. fst (cancel_takeprofit B E cpayload w) = Inr r
                      \<and> result_flow r = Some ''local'')
                \<and> (\<forall>p. SendProviderOrder p \<in> set (calls (snd (cancel_takeprofit B E cpayload w)))
                         \<longrightarrow> SendProviderOrder p \<in> set (calls w))
            | Some Provider \<Rightarrow>
                (\<exists>r. fst (cancel_takeprofit B E cpayload w) = Inr r
                      \<and> ((\<exists>via. r = ProviderSendFailed via) \<or> r = RedisStatusUpdateFailed
                          \<or> result_flow r = Some ''provider''))
                \<and> triggers (snd (cancel_takeprofit B E cpayload w)) = triggers w"
  proof (cases "resolve_flow user_type sending_orders")
    case None
    then show ?thesis
      using cancel_routed_unsupported [OF rc None] by (simp add: eq resolve_flow_table [symmetric])
  next
    case (Some fl)
    show ?thesis
    proof (cases fl)
      case Local
      with Some have rf: "resolve_flow user_type sending_orders = Some Local" by simp
      show ?thesis
        using cancel_routed_local [OF rc rf, of B cpayload order_id symbol side]
        by (simp add: eq resolve_flow_table [symmetric] rf Let_def cancel_local_result
            cancel_local_calls result_flow_def)
    next
      case Provider
      with Some have rf: "resolve_flow user_type sending_orders = Some Provider" by simp
      show ?thesis
        using cancel_routed_provider [OF rc rf, of B cpayload order_id symbol side]
        by (simp add: eq resolve_flow_table [symmetric] rf Let_def cancel_provider_result
            cancel_provider_triggers result_flow_def)
    qed
  qed
qed

text \<open>A live account with no routing preference, in both operations.\<close>

theorem flow_resolution_witness:
  "add_takeprofit sample_builtins (routed_env PNone) (sample_add ''live'' (PFloat (Finite (12 / 10))))
       empty_world
     = (Inr (UnsupportedFlow ''live'' []), called (FetchUserConfig ''live'' ''U1'') empty_world)
   \<and> cancel_takeprofit sample_builtins (routed_env PNone) (sample_cancel ''live'') empty_world
     = (Inr (UnsupportedFlow ''live'' []), called (FetchUserConfig ''live'' ''U1'') empty_world)"
  using flow_resolution [where user_type = "''live''" and sending_orders = "[]"
      and payload = "sample_add ''live'' (PFloat (Finite (12 / 10)))" and B = sample_builtins
      and tp_raw = "Finite (12 / 10)" and user_id = "''U1''" and E = "routed_env PNone"
      and w = empty_world and grp = "PStr ''Standard''" and cpayload = "sample_cancel ''live''"]
  by (simp add: sample_defs add_required_def cancel_required_def dget_def py_str_def str_defs
      safe_float_def py_float_def fle_zero_def read_config_def py_or_def truthy_def
      spec_flow_table_def Let_def)

subsection \<open>The adjusted price\<close>

lemma dget_upd_other: "k \<noteq> k' \<Longrightarrow> dget (p(k' \<mapsto> v)) k = dget p k"
  by (simp add: dget_def)

lemma add_provider_payload_upd:
  assumes "k \<notin> {''takeprofit_id'', ''order_status'', ''order_quantity'', ''order_price''}"
  shows "add_provider B E (payload(k \<mapsto> v)) order_id user_id user_type symbol side grp tp h w =
   add_provider B E payload order_id user_id user_type symbol side grp tp h w"
proof -
  have "dget (payload(k \<mapsto> v)) ''takeprofit_id'' = dget payload ''takeprofit_id''"
    "dget (payload(k \<mapsto> v)) ''order_status'' = dget payload ''order_status''"
    "dget (payload(k \<mapsto> v)) ''order_quantity'' = dget payload ''order_quantity''"
    "dget (payload(k \<mapsto> v)) ''order_price'' = dget payload ''order_price''"
    using assms by (auto intro!: dget_upd_other)
  then show ?thesis
    unfolding add_provider_def by (simp only:)
qed

lemma add_routed_payload_upd:
  assumes "k \<notin> {''takeprofit_id'', ''order_status'', ''order_quantity'', ''order_price''}"
  shows "add_routed B E (payload(k \<mapsto> v)) order_id user_id user_type symbol side tp w =
   add_routed B E payload order_id user_id user_type symbol side tp w"
  unfolding add_routed_def by (simp only: add_provider_payload_upd [OF assms])

lemma add_takeprofit_payload_upd:
  assumes "k \<notin> set add_required \<union> {''takeprofit_id'', ''order_status'', ''order_quantity'', ''order_price''}"
  shows "add_takeprofit B E (payload(k \<mapsto> v)) w = add_takeprofit B E payload w"
proof -
  have a: "\<And>k'. k' \<in> set add_required \<Longrightarrow> (payload(k \<mapsto> v)) k' = payload k'"
    using assms by auto
  have "filter (\<lambda>k'. (payload(k \<mapsto> v)) k' = None) add_required
        = filter (\<lambda>k'. payload k' = None) add_required"
    by (rule filter_cong) (simp_all only: a)
  moreover have "\<And>k'. k' \<in> set add_required \<Longrightarrow> dget (payload(k \<mapsto> v)) k' = dget payload k'"
    unfolding dget_def by (simp only: a)
  then have "dget (payload(k \<mapsto> v)) ''order_id'' = dget payload ''order_id''"
    "dget (payload(k \<mapsto> v)) ''user_id'' = dget payload ''user_id''"
    "dget (payload(k \<mapsto> v)) ''user_type'' = dget payload ''user_type''"
    "dget (payload(k \<mapsto> v)) ''symbol'' = dget payload ''symbol''"
    "dget (payload(k \<mapsto> v)) ''order_type'' = dget payload ''order_type''"
    "dget (payload(k \<mapsto> v)) ''take_profit'' = dget payload ''take_profit''"
    by (simp_all add: add_required_def)
  moreover have "\<And>a b c d e f g. add_routed B E (payload(k \<mapsto> v)) a b c d e f g
      = add_routed B E payload a b c d e f g"
    using assms by (intro add_routed_payload_upd) simp
  ultimately show ?thesis
    unfolding add_takeprofit_def by (simp only:)
qed


lemma add_provider_sent:
  "fst (add_provider B E payload order_id user_id user_type symbol side grp tp h w) = Inr r \<Longrightarrow>
     \<exists>p. last (calls (snd (add_provider B E payload order_id user_id user_type symbol side grp
                            tp h w))) = SendProviderOrder p
       \<and> map_of p ''takeprofit'' = Some (PFloat (if side = ''BUY'' then fadd tp h else fsub tp h))"
  by (auto simp: add_provider_def Let_def split_beta split: sum.splits bool.splits)

lemma add_provider_returns:
  assumes "safe_float B (dget payload ''order_quantity'') = Inr q"
    and "safe_float B (dget payload ''order_price'') = Inr e"
  shows "fst (add_provider B E payload order_id user_id user_type symbol side grp tp h w) =
     (if fst (send_result E)
      then Inr (AddSent ''provider'' order_id symbol side
                  (if side = ''BUY'' then fadd tp h else fsub tp h))
      else Inr (ProviderSendFailed (snd (send_result E))))"
  by (simp add: add_provider_def assms Let_def split_beta split: bool.splits)

text \<open>
  C2. For a payload that passes the checks and a supported flow, the price is the
  specification's \<open>adjustedPrice\<close> of the parsed take-profit, the side and the half
  spread of the account's group: \<open>raw + halfSpread\<close> for BUY, \<open>raw - halfSpread\<close> for
  SELL. On the local flow it is the \<open>score_take_profit\<close> of the trigger handed to the
  trigger store and of the success result. On the provider flow, for a payload whose
  quantity and price \<open>float\<close> converts or that lacks them, the operation returns, its
  last call is the send to the gateway of a payload whose \<open>takeprofit\<close> is that price,
  and the result is the success with that price as \<open>take_profit_sent\<close>, or
  \<open>provider_send_failed\<close> when the gateway refuses. A \<open>score_take_profit\<close> entry of
  the caller's payload changes nothing: the operation never reads it.
\<close>

theorem adjusted_price:
  "(\<forall>v. add_takeprofit B E (payload(''score_take_profit'' \<mapsto> v)) w = add_takeprofit B E payload w)
   \<and> ((\<forall>k\<in>set add_required. payload k \<noteq> None)
        \<and> order_id = py_str B (dget payload ''order_id'')
        \<and> user_id = py_str B (dget payload ''user_id'')
        \<and> user_type = lower (py_str B (dget payload ''user_type''))
        \<and> symbol = upper (py_str B (dget payload ''symbol''))
        \<and> side = upper (py_str B (dget payload ''order_type''))
        \<and> side \<in> {''BUY'', ''SELL''}
        \<and> safe_float B (dget payload ''take_profit'') = Inr (Some tp_raw) \<and> \<not> fle_zero tp_raw
        \<and> fst (read_config E user_type user_id w) = Inr (grp, sending_orders)
        \<and> resolve_flow user_type sending_orders = Some fl
        \<and> half_spread = fst (compute_half_spread B E symbol grp
                                 (called (FetchUserConfig user_type user_id) w))
       \<longrightarrow> (\<exists>adj. spec_adjusted_price tp_raw side half_spread = Some adj
              \<and> (fl = Local \<longrightarrow>
                    (\<exists>tr. UpsertOrderTriggers tr \<in> set (calls (snd (add_takeprofit B E payload w)))
                          \<and> tr_take_profit tr = tp_raw \<and> tr_score_take_profit tr = adj)
                    \<and> (upsert_result E \<longrightarrow>
                          fst (add_takeprofit B E payload w) =
                            Inr (AddedLocal ''local'' order_id symbol side tp_raw adj)))
              \<and> (fl = Provider
                    \<and> safe_float B (dget payload ''order_quantity'') = Inr qty_in
                    \<and> safe_float B (dget payload ''order_price'') = Inr price_in \<longrightarrow>
                    (\<exists>p. last (calls (snd (add_takeprofit B E payload w))) = SendProviderOrder p
                         \<and> map_of p ''takeprofit'' = Some (PFloat adj))
                    \<and> fst (add_takeprofit B E payload w) =
                        (if fst (send_result E)
                         then Inr (AddSent ''provider'' order_id symbol side adj)
                         else Inr (ProviderSendFailed (snd (send_result E)))))))"
proof (rule conjI)
  show "\<forall>v. add_takeprofit B E (payload(''score_take_profit'' \<mapsto> v)) w
          = add_takeprofit B E payload w"
  proof
    fix v
    show "add_takeprofit B E (payload(''score_take_profit'' \<mapsto> v)) w = add_takeprofit B E payload w"
      by (rule add_takeprofit_payload_upd) (simp add: add_required_def)
  qed
next
  {
  assume h: "(\<forall>k\<in>set add_required. payload k \<noteq> None)
        \<and> order_id = py_str B (dget payload ''order_id'')
        \<and> user_id = py_str B (dget payload ''user_id'')
        \<and> user_type = lower (py_str B (dget payload ''user_type''))
        \<and> symbol = upper (py_str B (dget payload ''symbol''))
        \<and> side = upper (py_str B (dget payload ''order_type''))
        \<and> side \<in> {''BUY'', ''SELL''}
        \<and> safe_float B (dget payload ''take_profit'') = Inr (Some tp_raw) \<and> \<not> fle_zero tp_raw
        \<and> fst (read_config E user_type user_id w) = Inr (grp, sending_orders)
        \<and> resolve_flow user_type sending_orders = Some fl
        \<and> half_spread = fst (compute_half_spread B E symbol grp
                                 (called (FetchUserConfig user_type user_id) w))"
  define adj where "adj = (if side = ''BUY'' then fadd tp_raw half_spread else fsub tp_raw half_spread)"
  define w2 where "w2 = snd (compute_half_spread B E symbol grp
                                 (called (FetchUserConfig user_type user_id) w))"
  from h have eq: "add_takeprofit B E payload w =
      add_routed B E payload order_id user_id user_type symbol side tp_raw w"
    using add_takeprofit_checked [of payload B tp_raw E w] by blast
  from h have rc: "fst (read_config E user_type user_id w) = Inr (grp, sending_orders)"
    and rf: "resolve_flow user_type sending_orders = Some fl"
    and hs: "half_spread = fst (compute_half_spread B E symbol grp
                                 (called (FetchUserConfig user_type user_id) w))"
    and sd: "side \<in> {''BUY'', ''SELL''}"
    by blast+
  from sd have sp: "spec_adjusted_price tp_raw side half_spread = Some adj"
    by (auto simp: spec_adjusted_price_def adj_def)
  have loc: "(\<exists>tr. UpsertOrderTriggers tr \<in> set (calls (snd (add_takeprofit B E payload w)))
                          \<and> tr_take_profit tr = tp_raw \<and> tr_score_take_profit tr = adj)
                    \<and> (upsert_result E \<longrightarrow>
                          fst (add_takeprofit B E payload w) =
                            Inr (AddedLocal ''local'' order_id symbol side tp_raw adj))"
    if "fl = Local"
  proof -
    from rf that have rf': "resolve_flow user_type sending_orders = Some Local" by simp
    have eq2: "add_takeprofit B E payload w =
        (Inr (fst (add_local B E order_id user_id user_type symbol side tp_raw half_spread w2)),
         snd (add_local B E order_id user_id user_type symbol side tp_raw half_spread w2))"
      using add_routed_local [OF rc rf', of B payload order_id symbol side tp_raw]
      by (simp add: eq Let_def hs w2_def)
    have "UpsertOrderTriggers
            \<lparr>tr_order_id = order_id, tr_symbol = symbol, tr_side = side,
               tr_user_type = user_type, tr_user_id = user_id, tr_stop_loss = None,
               tr_take_profit = tp_raw, tr_score_stop_loss = None,
               tr_score_take_profit = adj\<rparr>
          \<in> set (calls (snd (add_takeprofit B E payload w)))"
      by (simp add: eq2 add_local_calls adj_def)
    then have "\<exists>tr. UpsertOrderTriggers tr \<in> set (calls (snd (add_takeprofit B E payload w)))
                          \<and> tr_take_profit tr = tp_raw \<and> tr_score_take_profit tr = adj"
      by force
    moreover have "upsert_result E \<longrightarrow>
                          fst (add_takeprofit B E payload w) =
                            Inr (AddedLocal ''local'' order_id symbol side tp_raw adj)"
      by (simp add: eq2 add_local_result adj_def)
    ultimately show ?thesis by blast
  qed
  have prov: "(\<exists>p. last (calls (snd (add_takeprofit B E payload w))) = SendProviderOrder p
                         \<and> map_of p ''takeprofit'' = Some (PFloat adj))
                    \<and> fst (add_takeprofit B E payload w) =
                        (if fst (send_result E)
                         then Inr (AddSent ''provider'' order_id symbol side adj)
                         else Inr (ProviderSendFailed (snd (send_result E))))"
    if p: "fl = Provider
                    \<and> safe_float B (dget payload ''order_quantity'') = Inr qty_in
                    \<and> safe_float B (dget payload ''order_price'') = Inr price_in"
  proof -
    from rf p have rf': "resolve_flow user_type sending_orders = Some Provider" by simp
    from p have q: "safe_float B (dget payload ''order_quantity'') = Inr qty_in"
      and e: "safe_float B (dget payload ''order_price'') = Inr price_in"
      by blast+
    have eq2: "add_takeprofit B E payload w =
        add_provider B E payload order_id user_id user_type symbol side grp tp_raw half_spread w2"
      using add_routed_provider [OF rc rf', of B payload order_id symbol side tp_raw]
      by (simp add: eq Let_def hs w2_def)
    note ret = add_provider_returns [OF q e, of E order_id user_id user_type symbol side grp
        tp_raw half_spread w2]
    then obtain r where r: "fst (add_provider B E payload order_id user_id user_type symbol side
                                   grp tp_raw half_spread w2) = Inr r"
      by (cases "fst (send_result E)") simp_all
    from add_provider_sent [OF r]
    have "\<exists>p. last (calls (snd (add_takeprofit B E payload w))) = SendProviderOrder p
                         \<and> map_of p ''takeprofit'' = Some (PFloat adj)"
      by (simp add: eq2 adj_def)
    moreover from ret have "fst (add_takeprofit B E payload w) =
                        (if fst (send_result E)
                         then Inr (AddSent ''provider'' order_id symbol side adj)
                         else Inr (ProviderSendFailed (snd (send_result E))))"
      by (simp add: eq2 adj_def)
    ultimately show ?thesis by blast
  qed
  from sp loc prov
  have "\<exists>adj. spec_adjusted_price tp_raw side half_spread = Some adj
              \<and> (fl = Local \<longrightarrow>
                    (\<exists>tr. UpsertOrderTriggers tr \<in> set (calls (snd (add_takeprofit B E payload w)))
                          \<and> tr_take_profit tr = tp_raw \<and> tr_score_take_profit tr = adj)
                    \<and> (upsert_result E \<longrightarrow>
                          fst (add_takeprofit B E payload w) =
                            Inr (AddedLocal ''local'' order_id symbol side tp_raw adj)))
              \<and> (fl = Provider
                    \<and> safe_float B (dget payload ''order_quantity'') = Inr qty_in
                    \<and> safe_float B (dget payload ''order_price'') = Inr price_in \<longrightarrow>
                    (\<exists>p. last (calls (snd (add_takeprofit B E payload w))) = SendProviderOrder p
                         \<and> map_of p ''takeprofit'' = Some (PFloat adj))
                    \<and> fst (add_takeprofit B E payload w) =
                        (if fst (send_result E)
                         then Inr (AddSent ''provider'' order_id symbol side adj)
                         else Inr (ProviderSendFailed (snd (send_result E)))))"
    by blast
  }
  then show "(\<forall>k\<in>set add_required. payload k \<noteq> None)
        \<and> order_id = py_str B (dget payload ''order_id'')
        \<and> user_id = py_str B (dget payload ''user_id'')
        \<and> user_type = lower (py_str B (dget payload ''user_type''))
        \<and> symbol = upper (py_str B (dget payload ''symbol''))
        \<and> side = upper (py_str B (dget payload ''order_type''))
        \<and> side \<in> {''BUY'', ''SELL''}
        \<and> safe_float B (dget payload ''take_profit'') = Inr (Some tp_raw) \<and> \<not> fle_zero tp_raw
        \<and> fst (read_config E user_type user_id w) = Inr (grp, sending_orders)
        \<and> resolve_flow user_type sending_orders = Some fl
        \<and> half_spread = fst (compute_half_spread B E symbol grp
                                 (called (FetchUserConfig user_type user_id) w))
       \<longrightarrow> (\<exists>adj. spec_adjusted_price tp_raw side half_spread = Some adj
              \<and> (fl = Local \<longrightarrow>
                    (\<exists>tr. UpsertOrderTriggers tr \<in> set (calls (snd (add_takeprofit B E payload w)))
                          \<and> tr_take_profit tr = tp_raw \<and> tr_score_take_profit tr = adj)
                    \<and> (upsert_result E \<longrightarrow>
                          fst (add_takeprofit B E payload w) =
                            Inr (AddedLocal ''local'' order_id symbol side tp_raw adj)))
              \<and> (fl = Provider
                    \<and> safe_float B (dget payload ''order_quantity'') = Inr qty_in
                    \<and> safe_float B (dget payload ''order_price'') = Inr price_in \<longrightarrow>
                    (\<exists>p. last (calls (snd (add_takeprofit B E payload w))) = SendProviderOrder p
                         \<and> map_of p ''takeprofit'' = Some (PFloat adj))
                    \<and> fst (add_takeprofit B E payload w) =
                        (if fst (send_result E)
                         then Inr (AddSent ''provider'' order_id symbol side adj)
                         else Inr (ProviderSendFailed (snd (send_result E))))))"
    by (rule impI)
qed

text \<open>The first example of the specification, where 1.2 becomes 1.2001 on the local
  flow, and the same request of a live account routed to \<open>barclays\<close>, where 1.2001
  is sent to the gateway.\<close>

theorem adjusted_price_witness:
  "fst (add_takeprofit sample_builtins quiet_env (sample_add ''demo'' (PFloat (Finite (12 / 10))))
          empty_world)
     = Inr (AddedLocal ''local'' ''O1'' ''EURUSD'' ''BUY'' (Finite (12 / 10)) (Finite (12001 / 10000)))
   \<and> fst (add_takeprofit sample_builtins barclays_env
            (sample_add ''live'' (PFloat (Finite (12 / 10)))) empty_world)
     = Inr (AddSent ''provider'' ''O1'' ''EURUSD'' ''BUY'' (Finite (12001 / 10000)))
   \<and> (\<exists>p. last (calls (snd (add_takeprofit sample_builtins barclays_env
                                (sample_add ''live'' (PFloat (Finite (12 / 10)))) empty_world)))
             = SendProviderOrder p
           \<and> map_of p ''takeprofit'' = Some (PFloat (Finite (12001 / 10000))))"
proof -
  let ?p = "sample_add ''demo'' (PFloat (Finite (12 / 10)))"
  let ?q = "sample_add ''live'' (PFloat (Finite (12 / 10)))"
  have pre: "(\<forall>k\<in>set add_required. ?p k \<noteq> None)
        \<and> ''O1'' = py_str sample_builtins (dget ?p ''order_id'')
        \<and> ''U1'' = py_str sample_builtins (dget ?p ''user_id'')
        \<and> ''demo'' = lower (py_str sample_builtins (dget ?p ''user_type''))
        \<and> ''EURUSD'' = upper (py_str sample_builtins (dget ?p ''symbol''))
        \<and> ''BUY'' = upper (py_str sample_builtins (dget ?p ''order_type''))
        \<and> ''BUY'' \<in> {''BUY'', ''SELL''}
        \<and> safe_float sample_builtins (dget ?p ''take_profit'') = Inr (Some (Finite (12 / 10)))
        \<and> \<not> fle_zero (Finite (12 / 10))
        \<and> fst (read_config quiet_env ''demo'' ''U1'' empty_world) = Inr (PStr ''Standard'', ''rock'')
        \<and> resolve_flow ''demo'' ''rock'' = Some Local
        \<and> Finite (1 / 10000) = fst (compute_half_spread sample_builtins quiet_env ''EURUSD''
                                 (PStr ''Standard'') (called (FetchUserConfig ''demo'' ''U1'') empty_world))"
    by (simp add: sample_defs add_required_def dget_def py_str_def str_defs
      safe_float_def py_float_def fle_zero_def read_config_def py_or_def truthy_def
      resolve_flow_def fst_compute_half_spread half_spread_body_def fmul_def fhalve_def Let_def)
  from adjusted_price [where payload = ?p
      and B = sample_builtins and E = quiet_env and w = empty_world and order_id = "''O1''"
      and user_id = "''U1''" and user_type = "''demo''" and symbol = "''EURUSD''"
      and side = "''BUY''" and tp_raw = "Finite (12 / 10)" and grp = "PStr ''Standard''"
      and sending_orders = "''rock''" and fl = Local and half_spread = "Finite (1 / 10000)",
      THEN conjunct2, THEN mp, OF pre]
  obtain adj where a: "spec_adjusted_price (Finite (12 / 10)) ''BUY'' (Finite (1 / 10000)) = Some adj"
    and b: "upsert_result quiet_env \<longrightarrow>
              fst (add_takeprofit sample_builtins quiet_env ?p empty_world)
                = Inr (AddedLocal ''local'' ''O1'' ''EURUSD'' ''BUY'' (Finite (12 / 10)) adj)"
    by blast
  from a have adj: "adj = Finite (12001 / 10000)"
    by (simp add: spec_adjusted_price_def fadd_def)
  have "upsert_result quiet_env" by (simp add: quiet_env_def)
  with adj b have local: "fst (add_takeprofit sample_builtins quiet_env ?p empty_world)
     = Inr (AddedLocal ''local'' ''O1'' ''EURUSD'' ''BUY'' (Finite (12 / 10)) (Finite (12001 / 10000)))"
    by blast
  have pre2: "(\<forall>k\<in>set add_required. ?q k \<noteq> None)
        \<and> ''O1'' = py_str sample_builtins (dget ?q ''order_id'')
        \<and> ''U1'' = py_str sample_builtins (dget ?q ''user_id'')
        \<and> ''live'' = lower (py_str sample_builtins (dget ?q ''user_type''))
        \<and> ''EURUSD'' = upper (py_str sample_builtins (dget ?q ''symbol''))
        \<and> ''BUY'' = upper (py_str sample_builtins (dget ?q ''order_type''))
        \<and> ''BUY'' \<in> {''BUY'', ''SELL''}
        \<and> safe_float sample_builtins (dget ?q ''take_profit'') = Inr (Some (Finite (12 / 10)))
        \<and> \<not> fle_zero (Finite (12 / 10))
        \<and> fst (read_config barclays_env ''live'' ''U1'' empty_world)
            = Inr (PStr ''Standard'', ''barclays'')
        \<and> resolve_flow ''live'' ''barclays'' = Some Provider
        \<and> Finite (1 / 10000) = fst (compute_half_spread sample_builtins barclays_env ''EURUSD''
                                 (PStr ''Standard'') (called (FetchUserConfig ''live'' ''U1'') empty_world))"
    by (simp add: sample_defs barclays_env_def add_required_def dget_def py_str_def str_defs
      safe_float_def py_float_def fle_zero_def read_config_def py_or_def truthy_def
      resolve_flow_def fst_compute_half_spread half_spread_body_def fmul_def fhalve_def Let_def)
  have conv: "Provider = Provider
        \<and> safe_float sample_builtins (dget ?q ''order_quantity'') = Inr None
        \<and> safe_float sample_builtins (dget ?q ''order_price'') = Inr None"
    by (simp add: sample_add_def dget_def safe_float_def)
  from adjusted_price [where payload = ?q
      and B = sample_builtins and E = barclays_env and w = empty_world and order_id = "''O1''"
      and user_id = "''U1''" and user_type = "''live''" and symbol = "''EURUSD''"
      and side = "''BUY''" and tp_raw = "Finite (12 / 10)" and grp = "PStr ''Standard''"
      and sending_orders = "''barclays''" and fl = Provider and half_spread = "Finite (1 / 10000)"
      and qty_in = None and price_in = None,
      THEN conjunct2, THEN mp, OF pre2]
  obtain adj' where a': "spec_adjusted_price (Finite (12 / 10)) ''BUY'' (Finite (1 / 10000)) = Some adj'"
    and b': "Provider = Provider
        \<and> safe_float sample_builtins (dget ?q ''order_quantity'') = Inr None
        \<and> safe_float sample_builtins (dget ?q ''order_price'') = Inr None \<longrightarrow>
          (\<exists>p. last (calls (snd (add_takeprofit sample_builtins barclays_env ?q empty_world)))
                 = SendProviderOrder p
               \<and> map_of p ''takeprofit'' = Some (PFloat adj'))
          \<and> fst (add_takeprofit sample_builtins barclays_env ?q empty_world) =
              (if fst (send_result barclays_env)
               then Inr (AddSent ''provider'' ''O1'' ''EURUSD'' ''BUY'' adj')
               else Inr (ProviderSendFailed (snd (send_result barclays_env))))"
    by blast
  from a' have adj': "adj' = Finite (12001 / 10000)"
    by (simp add: spec_adjusted_price_def fadd_def)
  have sr: "fst (send_result barclays_env)"
    by (simp add: barclays_env_def routed_env_def quiet_env_def)
  from b' [THEN mp, OF conv] adj' sr
  have "(\<exists>p. last (calls (snd (add_takeprofit sample_builtins barclays_env ?q empty_world)))
                 = SendProviderOrder p
               \<and> map_of p ''takeprofit'' = Some (PFloat (Finite (12001 / 10000))))
          \<and> fst (add_takeprofit sample_builtins barclays_env ?q empty_world) =
              Inr (AddSent ''provider'' ''O1'' ''EURUSD'' ''BUY'' (Finite (12001 / 10000)))"
    by simp
  with local show ?thesis by blast
qed

subsection \<open>Local flow of \<open>add_takeprofit\<close>\<close>

lemma add_local_triggers:
  "triggers (snd (add_local B E order_id user_id user_type symbol side tp h w)) =
     (if upsert_result E
      then (triggers w)(order_id \<mapsto>
             \<lparr>tr_order_id = order_id, tr_symbol = symbol, tr_side = side,
                tr_user_type = user_type, tr_user_id = user_id, tr_stop_loss = None,
                tr_take_profit = tp, tr_score_stop_loss = None,
                tr_score_take_profit = (if side = ''BUY'' then fadd tp h else fsub tp h)\<rparr>)
      else triggers w)"
  by (simp add: add_local_def Let_def split_beta split: bool.splits)

lemma add_local_redis:
  "redis (snd (add_local B E order_id user_id user_type symbol side tp h w)) =
     (if upsert_result E then
        (let r1 = (if raises E HsetOrderData then redis w
                   else run_cmd (Hset (order_data_key order_id)
                          [(''symbol'', symbol), (''order_type'', side), (''user_type'', user_type),
                           (''user_id'', user_id), (''take_profit'', str_of_float B tp)]) (redis w))
         in if raises E HsetHoldings then r1
            else run_cmd (Hset (holdings_key user_type user_id order_id)
                   [(''take_profit'', str_of_float B tp)]) r1)
      else redis w)"
  by (simp add: add_local_def Let_def split_beta split: bool.splits)

lemma add_local_queue:
  "queue (snd (add_local B E order_id user_id user_type symbol side tp h w)) =
     (if upsert_result E \<and> \<not> raises E PublishSet
      then queue w @ [[(''type'', PStr ''ORDER_TAKEPROFIT_SET''), (''order_id'', PStr order_id),
                        (''user_id'', PStr user_id), (''user_type'', PStr user_type),
                        (''take_profit'', PFloat tp)]]
      else queue w)"
  by (simp add: add_local_def Let_def split_beta split: bool.splits)

text \<open>
  C3. On the local flow of \<open>add_takeprofit\<close>: when the upsert into the trigger store
  fails, the operation returns \<open>upsert_triggers_failed\<close>, and the upsert is the last
  call it makes, so neither cache keyspace nor the queue is written; when the upsert
  succeeds, the operation returns success with the computed \<open>score_take_profit\<close>
  whatever the cache writes and the publish do, in particular when all three raise
  (then the cache and the queue are as before).
\<close>

theorem local_add_write_policy:
  "(\<forall>k\<in>set add_required. payload k \<noteq> None)
     \<and> order_id = py_str B (dget payload ''order_id'')
     \<and> user_id = py_str B (dget payload ''user_id'')
     \<and> user_type = lower (py_str B (dget payload ''user_type''))
     \<and> symbol = upper (py_str B (dget payload ''symbol''))
     \<and> side = upper (py_str B (dget payload ''order_type''))
     \<and> side \<in> {''BUY'', ''SELL''}
     \<and> safe_float B (dget payload ''take_profit'') = Inr (Some tp_raw) \<and> \<not> fle_zero tp_raw
     \<and> fst (read_config E user_type user_id w) = Inr (grp, sending_orders)
     \<and> resolve_flow user_type sending_orders = Some Local
     \<and> half_spread = fst (compute_half_spread B E symbol grp
                              (called (FetchUserConfig user_type user_id) w))
     \<and> score_tp = (if side = ''BUY'' then fadd tp_raw half_spread else fsub tp_raw half_spread)
     \<and> tr = \<lparr>tr_order_id = order_id, tr_symbol = symbol, tr_side = side,
               tr_user_type = user_type, tr_user_id = user_id, tr_stop_loss = None,
               tr_take_profit = tp_raw, tr_score_stop_loss = None,
               tr_score_take_profit = score_tp\<rparr>
   \<longrightarrow> (\<not> upsert_result E \<longrightarrow>
          fst (add_takeprofit B E payload w) = Inr UpsertTriggersFailed
          \<and> calls (snd (add_takeprofit B E payload w)) =
              calls w @ [FetchUserConfig user_type user_id, FetchGroupData symbol grp,
                         UpsertOrderTriggers tr]
          \<and> redis (snd (add_takeprofit B E payload w)) = redis w
          \<and> queue (snd (add_takeprofit B E payload w)) = queue w)
     \<and> (upsert_result E \<longrightarrow>
          fst (add_takeprofit B E payload w) =
            Inr (AddedLocal ''local'' order_id symbol side tp_raw score_tp))
     \<and> (upsert_result E \<and> raises E HsetOrderData \<and> raises E HsetHoldings \<and> raises E PublishSet
          \<longrightarrow> fst (add_takeprofit B E payload w) =
                Inr (AddedLocal ''local'' order_id symbol side tp_raw score_tp)
              \<and> redis (snd (add_takeprofit B E payload w)) = redis w
              \<and> queue (snd (add_takeprofit B E payload w)) = queue w)"
proof (intro impI)
  assume h: "(\<forall>k\<in>set add_required. payload k \<noteq> None)
     \<and> order_id = py_str B (dget payload ''order_id'')
     \<and> user_id = py_str B (dget payload ''user_id'')
     \<and> user_type = lower (py_str B (dget payload ''user_type''))
     \<and> symbol = upper (py_str B (dget payload ''symbol''))
     \<and> side = upper (py_str B (dget payload ''order_type''))
     \<and> side \<in> {''BUY'', ''SELL''}
     \<and> safe_float B (dget payload ''take_profit'') = Inr (Some tp_raw) \<and> \<not> fle_zero tp_raw
     \<and> fst (read_config E user_type user_id w) = Inr (grp, sending_orders)
     \<and> resolve_flow user_type sending_orders = Some Local
     \<and> half_spread = fst (compute_half_spread B E symbol grp
                              (called (FetchUserConfig user_type user_id) w))
     \<and> score_tp = (if side = ''BUY'' then fadd tp_raw half_spread else fsub tp_raw half_spread)
     \<and> tr = \<lparr>tr_order_id = order_id, tr_symbol = symbol, tr_side = side,
               tr_user_type = user_type, tr_user_id = user_id, tr_stop_loss = None,
               tr_take_profit = tp_raw, tr_score_stop_loss = None,
               tr_score_take_profit = score_tp\<rparr>"
  define w2 where "w2 = snd (compute_half_spread B E symbol grp
                                 (called (FetchUserConfig user_type user_id) w))"
  from h have eq: "add_takeprofit B E payload w =
      add_routed B E payload order_id user_id user_type symbol side tp_raw w"
    using add_takeprofit_checked [of payload B tp_raw E w] by blast
  from h have rc: "fst (read_config E user_type user_id w) = Inr (grp, sending_orders)"
    and rf: "resolve_flow user_type sending_orders = Some Local"
    and hs: "half_spread = fst (compute_half_spread B E symbol grp
                                 (called (FetchUserConfig user_type user_id) w))"
    and sc: "score_tp = (if side = ''BUY'' then fadd tp_raw half_spread else fsub tp_raw half_spread)"
    and tr: "tr = \<lparr>tr_order_id = order_id, tr_symbol = symbol, tr_side = side,
               tr_user_type = user_type, tr_user_id = user_id, tr_stop_loss = None,
               tr_take_profit = tp_raw, tr_score_stop_loss = None,
               tr_score_take_profit = score_tp\<rparr>"
    by blast+
  have eq2: "add_takeprofit B E payload w =
        (Inr (fst (add_local B E order_id user_id user_type symbol side tp_raw half_spread w2)),
         snd (add_local B E order_id user_id user_type symbol side tp_raw half_spread w2))"
    using add_routed_local [OF rc rf, of B payload order_id symbol side tp_raw]
    by (simp add: eq Let_def hs w2_def)
  show "(\<not> upsert_result E \<longrightarrow>
          fst (add_takeprofit B E payload w) = Inr UpsertTriggersFailed
          \<and> calls (snd (add_takeprofit B E payload w)) =
              calls w @ [FetchUserConfig user_type user_id, FetchGroupData symbol grp,
                         UpsertOrderTriggers tr]
          \<and> redis (snd (add_takeprofit B E payload w)) = redis w
          \<and> queue (snd (add_takeprofit B E payload w)) = queue w)
     \<and> (upsert_result E \<longrightarrow>
          fst (add_takeprofit B E payload w) =
            Inr (AddedLocal ''local'' order_id symbol side tp_raw score_tp))
     \<and> (upsert_result E \<and> raises E HsetOrderData \<and> raises E HsetHoldings \<and> raises E PublishSet
          \<longrightarrow> fst (add_takeprofit B E payload w) =
                Inr (AddedLocal ''local'' order_id symbol side tp_raw score_tp)
              \<and> redis (snd (add_takeprofit B E payload w)) = redis w
              \<and> queue (snd (add_takeprofit B E payload w)) = queue w)"
    by (simp add: eq2 add_local_result add_local_calls add_local_triggers add_local_redis
        add_local_queue w2_def sc tr Let_def)
qed

text \<open>The example of the specification with both cache writes and the publish
  failing: the result is the same success.\<close>

theorem local_add_write_policy_witness:
  "fst (add_takeprofit sample_builtins mirror_failure_env
          (sample_add ''demo'' (PFloat (Finite (12 / 10)))) empty_world)
     = Inr (AddedLocal ''local'' ''O1'' ''EURUSD'' ''BUY'' (Finite (12 / 10)) (Finite (12001 / 10000)))
   \<and> redis (snd (add_takeprofit sample_builtins mirror_failure_env
                   (sample_add ''demo'' (PFloat (Finite (12 / 10)))) empty_world))
     = redis empty_world
   \<and> queue (snd (add_takeprofit sample_builtins mirror_failure_env
                   (sample_add ''demo'' (PFloat (Finite (12 / 10)))) empty_world))
     = queue empty_world"
proof -
  let ?p = "sample_add ''demo'' (PFloat (Finite (12 / 10)))"
  let ?E = mirror_failure_env
  let ?tr = "\<lparr>tr_order_id = ''O1'', tr_symbol = ''EURUSD'', tr_side = ''BUY'',
               tr_user_type = ''demo'', tr_user_id = ''U1'', tr_stop_loss = None,
               tr_take_profit = Finite (12 / 10), tr_score_stop_loss = None,
               tr_score_take_profit = Finite (12001 / 10000)\<rparr>"
  have pre: "(\<forall>k\<in>set add_required. ?p k \<noteq> None)
        \<and> ''O1'' = py_str sample_builtins (dget ?p ''order_id'')
        \<and> ''U1'' = py_str sample_builtins (dget ?p ''user_id'')
        \<and> ''demo'' = lower (py_str sample_builtins (dget ?p ''user_type''))
        \<and> ''EURUSD'' = upper (py_str sample_builtins (dget ?p ''symbol''))
        \<and> ''BUY'' = upper (py_str sample_builtins (dget ?p ''order_type''))
        \<and> ''BUY'' \<in> {''BUY'', ''SELL''}
        \<and> safe_float sample_builtins (dget ?p ''take_profit'') = Inr (Some (Finite (12 / 10)))
        \<and> \<not> fle_zero (Finite (12 / 10))
        \<and> fst (read_config ?E ''demo'' ''U1'' empty_world) = Inr (PStr ''Standard'', ''rock'')
        \<and> resolve_flow ''demo'' ''rock'' = Some Local
        \<and> Finite (1 / 10000) = fst (compute_half_spread sample_builtins ?E ''EURUSD''
                                 (PStr ''Standard'') (called (FetchUserConfig ''demo'' ''U1'') empty_world))
        \<and> Finite (12001 / 10000) = (if ''BUY'' = ''BUY'' then fadd (Finite (12 / 10)) (Finite (1 / 10000))
                                     else fsub (Finite (12 / 10)) (Finite (1 / 10000)))
        \<and> ?tr = ?tr"
    by (simp add: sample_defs mirror_failure_env_def add_required_def dget_def py_str_def str_defs
      safe_float_def py_float_def fle_zero_def read_config_def py_or_def truthy_def
      resolve_flow_def fst_compute_half_spread half_spread_body_def fmul_def fhalve_def fadd_def
      Let_def)
  have fl: "upsert_result ?E \<and> raises ?E HsetOrderData \<and> raises ?E HsetHoldings
            \<and> raises ?E PublishSet"
    by (simp add: mirror_failure_env_def quiet_env_def)
  from local_add_write_policy [where payload = ?p
      and B = sample_builtins and E = ?E and w = empty_world and order_id = "''O1''"
      and user_id = "''U1''" and user_type = "''demo''" and symbol = "''EURUSD''"
      and side = "''BUY''" and tp_raw = "Finite (12 / 10)" and grp = "PStr ''Standard''"
      and sending_orders = "''rock''" and half_spread = "Finite (1 / 10000)"
      and score_tp = "Finite (12001 / 10000)" and tr = ?tr,
      THEN mp, OF pre, THEN conjunct2, THEN conjunct2, THEN mp, OF fl]
  show ?thesis .
qed

subsection \<open>Provider flow of \<open>cancel_takeprofit\<close>\<close>

lemma cancel_provider_redis:
  "redis (snd (cancel_provider B E payload order_id user_id user_type symbol side w)) =
     (if fst (send_result E) \<and> \<not> raises E MarkCancel then
        run_cmds
          [Hset (order_data_key order_id)
             [(''status'', ''TAKEPROFIT-CANCEL''), (''symbol'', symbol), (''order_type'', side),
              (''takeprofit_cancel_id'',
               strip (py_str B (py_or (dget payload ''takeprofit_cancel_id'') (PStr []))))],
           Hset (holdings_key user_type user_id order_id) [(''status'', ''TAKEPROFIT-CANCEL'')]]
          (redis w)
      else redis w)"
  by (simp add: cancel_provider_def Let_def split_beta split: bool.splits)

lemma cancel_takeprofit_verify_read_result:
  "fst (cancel_takeprofit B (E\<lparr>verify_read := v\<rparr>) payload w) = fst (cancel_takeprofit B E payload w)"
  by (simp add: cancel_takeprofit_def cancel_routed_def read_config_def Let_def split_beta
      cancel_local_result cancel_provider_result
      split: pyval.splits option.splits flow.splits)


lemma cancel_provider_calls:
  "calls (snd (cancel_provider B E payload order_id user_id user_type symbol side w)) =
     (let cid = strip (py_str B (py_or (dget payload ''takeprofit_cancel_id'') (PStr [])));
          tid = strip (py_str B (py_or (dget payload ''takeprofit_id'') (PStr [])))
      in calls w
         @ (if cid \<noteq> [] then [AddLifecycleId order_id cid ''takeprofit_cancel_id''] else [])
         @ [SendProviderOrder
              ([(''order_id'', PStr order_id), (''symbol'', PStr symbol), (''order_type'', PStr side),
                (''takeprofit_id'', PStr tid), (''takeprofit_cancel_id'', PStr cid),
                (''status'', PStr ''TAKEPROFIT-CANCEL''), (''type'', PStr ''order'')]
               @ (if cid \<noteq> [] then [(''take_profit_cancel_id'', PStr cid)] else []))]
         @ (if fst (send_result E) then
              [RedisPipeline
                 [Hset (order_data_key order_id)
                    [(''status'', ''TAKEPROFIT-CANCEL''), (''symbol'', symbol),
                     (''order_type'', side), (''takeprofit_cancel_id'', cid)],
                  Hset (holdings_key user_type user_id order_id)
                    [(''status'', ''TAKEPROFIT-CANCEL'')]]]
              @ (if raises E MarkCancel then []
                 else [RedisHget (order_data_key order_id) ''status''])
            else []))"
  by (simp add: cancel_provider_def Let_def split_beta split: bool.splits)

lemma marked_status:
  "run_cmds [Hset k1 [(''status'', s), (''symbol'', a), (''order_type'', b), (''takeprofit_cancel_id'', c)],
             Hset k2 [(''status'', s)]] r k1 ''status'' = Some s"
  "run_cmds [Hset k1 [(''status'', s), (''symbol'', a), (''order_type'', b), (''takeprofit_cancel_id'', c)],
             Hset k2 [(''status'', s)]] r k2 ''status'' = Some s"
  "run_cmds [Hset k1 [(''status'', s), (''symbol'', a), (''order_type'', b)],
             Hset k2 [(''status'', s)]] r k1 ''status'' = Some s"
  "run_cmds [Hset k1 [(''status'', s), (''symbol'', a), (''order_type'', b)],
             Hset k2 [(''status'', s)]] r k2 ''status'' = Some s"
  by (simp_all add: run_cmds_def run_cmd_def hset_fields_def)

text \<open>
  C4. On the provider flow of \<open>cancel_takeprofit\<close>: a send the gateway refuses returns
  \<open>provider_send_failed\<close> with the channel, and the cache is not written; after a
  successful send, a failed write of the routing status returns
  \<open>redis_status_update_failed\<close> although the payload went to the gateway; a
  successful write returns success and leaves \<open>status = TAKEPROFIT-CANCEL\<close> in both
  keyspaces. The value the read-back observes never changes the result: the first
  conjunct holds for every payload and environment.
\<close>

theorem provider_cancel_write_policy:
  "(\<forall>v. fst (cancel_takeprofit B (E\<lparr>verify_read := v\<rparr>) payload w)
          = fst (cancel_takeprofit B E payload w))
   \<and> ((\<forall>k\<in>set cancel_required. payload k \<noteq> None)
        \<and> order_id = strip (py_str B (dget payload ''order_id''))
        \<and> user_id = strip (py_str B (dget payload ''user_id''))
        \<and> user_type = strip (lower (py_str B (dget payload ''user_type'')))
        \<and> symbol = strip (upper (py_str B (dget payload ''symbol'')))
        \<and> side = strip (upper (py_str B (dget payload ''order_type'')))
        \<and> side \<in> {''BUY'', ''SELL''}
        \<and> fst (read_config E user_type user_id w) = Inr (grp, sending_orders)
        \<and> resolve_flow user_type sending_orders = Some Provider
       \<longrightarrow> (\<forall>via. send_result E = (False, via) \<longrightarrow>
               fst (cancel_takeprofit B E payload w) = Inr (ProviderSendFailed via)
               \<and> reason (ProviderSendFailed via) = Some (''provider_send_failed:'' @ via)
               \<and> redis (snd (cancel_takeprofit B E payload w)) = redis w)
          \<and> (\<forall>via. send_result E = (True, via) \<and> raises E MarkCancel \<longrightarrow>
               fst (cancel_takeprofit B E payload w) = Inr RedisStatusUpdateFailed
               \<and> (\<exists>p. SendProviderOrder p \<in> set (calls (snd (cancel_takeprofit B E payload w))))
               \<and> redis (snd (cancel_takeprofit B E payload w)) = redis w)
          \<and> (\<forall>via. send_result E = (True, via) \<and> \<not> raises E MarkCancel \<longrightarrow>
               fst (cancel_takeprofit B E payload w) =
                 Inr (CancelSent ''provider'' order_id symbol side)
               \<and> redis (snd (cancel_takeprofit B E payload w)) (order_data_key order_id) ''status''
                   = Some ''TAKEPROFIT-CANCEL''
               \<and> redis (snd (cancel_takeprofit B E payload w))
                     (holdings_key user_type user_id order_id) ''status''
                   = Some ''TAKEPROFIT-CANCEL''))"
proof (rule conjI)
  show "\<forall>v. fst (cancel_takeprofit B (E\<lparr>verify_read := v\<rparr>) payload w)
          = fst (cancel_takeprofit B E payload w)"
    by (simp add: cancel_takeprofit_verify_read_result)
next
  {
  assume h: "(\<forall>k\<in>set cancel_required. payload k \<noteq> None)
        \<and> order_id = strip (py_str B (dget payload ''order_id''))
        \<and> user_id = strip (py_str B (dget payload ''user_id''))
        \<and> user_type = strip (lower (py_str B (dget payload ''user_type'')))
        \<and> symbol = strip (upper (py_str B (dget payload ''symbol'')))
        \<and> side = strip (upper (py_str B (dget payload ''order_type'')))
        \<and> side \<in> {''BUY'', ''SELL''}
        \<and> fst (read_config E user_type user_id w) = Inr (grp, sending_orders)
        \<and> resolve_flow user_type sending_orders = Some Provider"
  define w1 where "w1 = called (FetchUserConfig user_type user_id) w"
  from h have eq: "cancel_takeprofit B E payload w =
      cancel_routed B E payload order_id user_id user_type symbol side w"
    using cancel_takeprofit_checked [of payload B E w] by blast
  from h have rc: "fst (read_config E user_type user_id w) = Inr (grp, sending_orders)"
    and rf: "resolve_flow user_type sending_orders = Some Provider"
    by blast+
  have eq2: "cancel_takeprofit B E payload w =
        (Inr (fst (cancel_provider B E payload order_id user_id user_type symbol side w1)),
         snd (cancel_provider B E payload order_id user_id user_type symbol side w1))"
    using cancel_routed_provider [OF rc rf, of B payload order_id symbol side]
    by (simp add: eq Let_def w1_def)
  have "(\<forall>via. send_result E = (False, via) \<longrightarrow>
               fst (cancel_takeprofit B E payload w) = Inr (ProviderSendFailed via)
               \<and> reason (ProviderSendFailed via) = Some (''provider_send_failed:'' @ via)
               \<and> redis (snd (cancel_takeprofit B E payload w)) = redis w)
          \<and> (\<forall>via. send_result E = (True, via) \<and> raises E MarkCancel \<longrightarrow>
               fst (cancel_takeprofit B E payload w) = Inr RedisStatusUpdateFailed
               \<and> (\<exists>p. SendProviderOrder p \<in> set (calls (snd (cancel_takeprofit B E payload w))))
               \<and> redis (snd (cancel_takeprofit B E payload w)) = redis w)
          \<and> (\<forall>via. send_result E = (True, via) \<and> \<not> raises E MarkCancel \<longrightarrow>
               fst (cancel_takeprofit B E payload w) =
                 Inr (CancelSent ''provider'' order_id symbol side)
               \<and> redis (snd (cancel_takeprofit B E payload w)) (order_data_key order_id) ''status''
                   = Some ''TAKEPROFIT-CANCEL''
               \<and> redis (snd (cancel_takeprofit B E payload w))
                     (holdings_key user_type user_id order_id) ''status''
                   = Some ''TAKEPROFIT-CANCEL'')"
    by (auto simp: eq2 cancel_provider_result cancel_provider_redis cancel_provider_calls
        marked_status reason_def w1_def Let_def)
  }
  then show "(\<forall>k\<in>set cancel_required. payload k \<noteq> None)
        \<and> order_id = strip (py_str B (dget payload ''order_id''))
        \<and> user_id = strip (py_str B (dget payload ''user_id''))
        \<and> user_type = strip (lower (py_str B (dget payload ''user_type'')))
        \<and> symbol = strip (upper (py_str B (dget payload ''symbol'')))
        \<and> side = strip (upper (py_str B (dget payload ''order_type'')))
        \<and> side \<in> {''BUY'', ''SELL''}
        \<and> fst (read_config E user_type user_id w) = Inr (grp, sending_orders)
        \<and> resolve_flow user_type sending_orders = Some Provider
       \<longrightarrow> (\<forall>via. send_result E = (False, via) \<longrightarrow>
               fst (cancel_takeprofit B E payload w) = Inr (ProviderSendFailed via)
               \<and> reason (ProviderSendFailed via) = Some (''provider_send_failed:'' @ via)
               \<and> redis (snd (cancel_takeprofit B E payload w)) = redis w)
          \<and> (\<forall>via. send_result E = (True, via) \<and> raises E MarkCancel \<longrightarrow>
               fst (cancel_takeprofit B E payload w) = Inr RedisStatusUpdateFailed
               \<and> (\<exists>p. SendProviderOrder p \<in> set (calls (snd (cancel_takeprofit B E payload w))))
               \<and> redis (snd (cancel_takeprofit B E payload w)) = redis w)
          \<and> (\<forall>via. send_result E = (True, via) \<and> \<not> raises E MarkCancel \<longrightarrow>
               fst (cancel_takeprofit B E payload w) =
                 Inr (CancelSent ''provider'' order_id symbol side)
               \<and> redis (snd (cancel_takeprofit B E payload w)) (order_data_key order_id) ''status''
                   = Some ''TAKEPROFIT-CANCEL''
               \<and> redis (snd (cancel_takeprofit B E payload w))
                     (holdings_key user_type user_id order_id) ''status''
                   = Some ''TAKEPROFIT-CANCEL'')"
    by (rule impI)
qed

text \<open>A live account routed to \<open>barclays\<close>: the status write raises after the send;
  and the read-back observes \<open>OPEN\<close> after a successful write.\<close>

theorem provider_cancel_write_policy_witness:
  "fst (cancel_takeprofit sample_builtins mark_failure_env (sample_cancel ''live'') empty_world)
     = Inr RedisStatusUpdateFailed
   \<and> fst (cancel_takeprofit sample_builtins (barclays_env\<lparr>verify_read := Some ''OPEN''\<rparr>)
            (sample_cancel ''live'') empty_world)
     = Inr (CancelSent ''provider'' ''O1'' ''EURUSD'' ''BUY'')"
proof -
  let ?p = "sample_cancel ''live''"
  have pre: "(\<forall>k\<in>set cancel_required. ?p k \<noteq> None)
        \<and> ''O1'' = strip (py_str sample_builtins (dget ?p ''order_id''))
        \<and> ''U1'' = strip (py_str sample_builtins (dget ?p ''user_id''))
        \<and> ''live'' = strip (lower (py_str sample_builtins (dget ?p ''user_type'')))
        \<and> ''EURUSD'' = strip (upper (py_str sample_builtins (dget ?p ''symbol'')))
        \<and> ''BUY'' = strip (upper (py_str sample_builtins (dget ?p ''order_type'')))
        \<and> ''BUY'' \<in> {''BUY'', ''SELL''}
        \<and> fst (read_config E ''live'' ''U1'' empty_world) = Inr (PStr ''Standard'', ''barclays'')
        \<and> resolve_flow ''live'' ''barclays'' = Some Provider"
    if "E = mark_failure_env \<or> E = barclays_env" for E
    using that
    by (auto simp: sample_defs mark_failure_env_def barclays_env_def cancel_required_def dget_def
        py_str_def str_defs read_config_def py_or_def truthy_def resolve_flow_def Let_def)
  note T1 = provider_cancel_write_policy [where payload = ?p and B = sample_builtins
      and E = mark_failure_env and w = empty_world and order_id = "''O1''"
      and user_id = "''U1''" and user_type = "''live''" and symbol = "''EURUSD''"
      and side = "''BUY''" and grp = "PStr ''Standard''" and sending_orders = "''barclays''",
      THEN conjunct2, THEN mp, OF pre, THEN conjunct2, THEN conjunct1, THEN spec,
      of "''persistent''"]
  have a: "fst (cancel_takeprofit sample_builtins mark_failure_env ?p empty_world)
     = Inr RedisStatusUpdateFailed"
    using T1 by (simp add: mark_failure_env_def barclays_env_def routed_env_def quiet_env_def)
  note T2 = provider_cancel_write_policy [where payload = ?p and B = sample_builtins
      and E = barclays_env and w = empty_world and order_id = "''O1''"
      and user_id = "''U1''" and user_type = "''live''" and symbol = "''EURUSD''"
      and side = "''BUY''" and grp = "PStr ''Standard''" and sending_orders = "''barclays''"]
  have b: "fst (cancel_takeprofit sample_builtins barclays_env ?p empty_world)
     = Inr (CancelSent ''provider'' ''O1'' ''EURUSD'' ''BUY'')"
    using T2 [THEN conjunct2, THEN mp, OF pre, THEN conjunct2, THEN conjunct2, THEN spec,
        of "''persistent''"]
    by (simp add: barclays_env_def routed_env_def quiet_env_def)
  from T2 [THEN conjunct1, THEN spec, of "Some ''OPEN''"] a b show ?thesis by simp
qed

subsection \<open>Provider flow of \<open>add_takeprofit\<close>\<close>

lemma add_provider_failed_send:
  "send_result E = (False, via) \<Longrightarrow>
   fst (add_provider B E payload order_id user_id user_type symbol side grp tp h w) = Inr r \<Longrightarrow>
   r = ProviderSendFailed via"
  by (auto simp: add_provider_def Let_def split_beta split: sum.splits bool.splits)

lemma add_provider_no_raise:
  "(\<exists>q. safe_float B (dget payload ''order_quantity'') = Inr q) \<Longrightarrow>
   (\<exists>e. safe_float B (dget payload ''order_price'') = Inr e) \<Longrightarrow>
   \<exists>r. fst (add_provider B E payload order_id user_id user_type symbol side grp tp h w) = Inr r"
  by (auto simp: add_provider_def Let_def split_beta split: sum.splits bool.splits)

lemma add_provider_redis:
  "redis (snd (add_provider B E payload order_id user_id user_type symbol side grp tp h w)) =
     (if raises E MarkTakeprofit then redis w
      else run_cmds
             [Hset (order_data_key order_id)
                [(''status'', ''TAKEPROFIT''), (''symbol'', symbol), (''order_type'', side)],
              Hset (holdings_key user_type user_id order_id) [(''status'', ''TAKEPROFIT'')]]
             (redis w))"
  by (simp add: add_provider_def Let_def split_beta split: sum.splits bool.splits)

lemma fill_from_cache_reads:
  "\<exists>m. calls (snd (fill_from_cache B E oid q e w)) = calls w @ m \<and> (\<forall>c\<in>set m. \<not> is_write c)"
  by (simp add: is_write_def)

lemma contract_value_of_reads:
  "\<exists>m. calls (snd (contract_value_of B E symbol grp cv q e w)) = calls w @ m
       \<and> (\<forall>c\<in>set m. \<not> is_write c)"
  by (simp add: is_write_def)

lemma add_provider_calls_shape:
  assumes "safe_float B (dget payload ''order_quantity'') = Inr q0"
    and "safe_float B (dget payload ''order_price'') = Inr e0"
  shows "\<exists>pre cv q e p.
     calls (snd (add_provider B E payload order_id user_id user_type symbol side grp tp h w)) =
       calls (snd (contract_value_of B E symbol grp cv q e
                (snd (fill_from_cache B E order_id q0 e0
                   (snd (exec_pipeline E MarkTakeprofit
                     [Hset (order_data_key order_id)
                        [(''status'', ''TAKEPROFIT''), (''symbol'', symbol), (''order_type'', side)],
                      Hset (holdings_key user_type user_id order_id)
                        [(''status'', ''TAKEPROFIT'')]]
                     pre))))))
       @ [SendProviderOrder p]"
  unfolding add_provider_def Let_def split_beta assms sum.case
  by (cases "fst (send_result E)")
     (simp_all del: contract_value_of_simps fill_from_cache_simps exec_pipeline_simps, blast+)

text \<open>
  C10. On the provider flow of \<open>add_takeprofit\<close> (for a payload whose quantity and
  price \<open>float\<close> converts or that lacks them), the pipeline that marks both cache
  keyspaces with \<open>status = TAKEPROFIT\<close> is executed before the send to the gateway,
  with nothing but reads in between, and the send is the last call of the operation.
  So when the gateway refuses the send the operation returns \<open>provider_send_failed\<close>
  with the channel, and, if the pipeline did not raise, both keys still hold
  \<open>status = TAKEPROFIT\<close>: nothing undoes the marks.
\<close>

theorem provider_add_mark_before_send:
  "(\<forall>k\<in>set add_required. payload k \<noteq> None)
     \<and> order_id = py_str B (dget payload ''order_id'')
     \<and> user_id = py_str B (dget payload ''user_id'')
     \<and> user_type = lower (py_str B (dget payload ''user_type''))
     \<and> symbol = upper (py_str B (dget payload ''symbol''))
     \<and> side = upper (py_str B (dget payload ''order_type''))
     \<and> side \<in> {''BUY'', ''SELL''}
     \<and> safe_float B (dget payload ''take_profit'') = Inr (Some tp_raw) \<and> \<not> fle_zero tp_raw
     \<and> safe_float B (dget payload ''order_quantity'') = Inr qty_in
     \<and> safe_float B (dget payload ''order_price'') = Inr price_in
     \<and> fst (read_config E user_type user_id w) = Inr (grp, sending_orders)
     \<and> resolve_flow user_type sending_orders = Some Provider
     \<and> mark = [Hset (order_data_key order_id)
                  [(''status'', ''TAKEPROFIT''), (''symbol'', symbol), (''order_type'', side)],
                Hset (holdings_key user_type user_id order_id) [(''status'', ''TAKEPROFIT'')]]
     \<and> w' = snd (add_takeprofit B E payload w)
   \<longrightarrow> (\<exists>pre mid p. calls w' = pre @ [RedisPipeline mark] @ mid @ [SendProviderOrder p]
                     \<and> (\<forall>c\<in>set mid. \<not> is_write c))
       \<and> (send_result E = (False, via) \<longrightarrow>
             fst (add_takeprofit B E payload w) = Inr (ProviderSendFailed via)
             \<and> (\<not> raises E MarkTakeprofit \<longrightarrow>
                   redis w' (order_data_key order_id) ''status'' = Some ''TAKEPROFIT''
                   \<and> redis w' (holdings_key user_type user_id order_id) ''status''
                       = Some ''TAKEPROFIT''))"
proof (rule impI)
  assume h: "(\<forall>k\<in>set add_required. payload k \<noteq> None)
     \<and> order_id = py_str B (dget payload ''order_id'')
     \<and> user_id = py_str B (dget payload ''user_id'')
     \<and> user_type = lower (py_str B (dget payload ''user_type''))
     \<and> symbol = upper (py_str B (dget payload ''symbol''))
     \<and> side = upper (py_str B (dget payload ''order_type''))
     \<and> side \<in> {''BUY'', ''SELL''}
     \<and> safe_float B (dget payload ''take_profit'') = Inr (Some tp_raw) \<and> \<not> fle_zero tp_raw
     \<and> safe_float B (dget payload ''order_quantity'') = Inr qty_in
     \<and> safe_float B (dget payload ''order_price'') = Inr price_in
     \<and> fst (read_config E user_type user_id w) = Inr (grp, sending_orders)
     \<and> resolve_flow user_type sending_orders = Some Provider
     \<and> mark = [Hset (order_data_key order_id)
                  [(''status'', ''TAKEPROFIT''), (''symbol'', symbol), (''order_type'', side)],
                Hset (holdings_key user_type user_id order_id) [(''status'', ''TAKEPROFIT'')]]
     \<and> w' = snd (add_takeprofit B E payload w)"
  define hw where
    "hw = compute_half_spread B E symbol grp (called (FetchUserConfig user_type user_id) w)"
  from h have eq: "add_takeprofit B E payload w =
      add_routed B E payload order_id user_id user_type symbol side tp_raw w"
    using add_takeprofit_checked [of payload B tp_raw E w] by blast
  from h have rc: "fst (read_config E user_type user_id w) = Inr (grp, sending_orders)"
    and rf: "resolve_flow user_type sending_orders = Some Provider"
    and q: "safe_float B (dget payload ''order_quantity'') = Inr qty_in"
    and e: "safe_float B (dget payload ''order_price'') = Inr price_in"
    and mk: "mark = [Hset (order_data_key order_id)
                  [(''status'', ''TAKEPROFIT''), (''symbol'', symbol), (''order_type'', side)],
                Hset (holdings_key user_type user_id order_id) [(''status'', ''TAKEPROFIT'')]]"
    and w': "w' = snd (add_takeprofit B E payload w)"
    by blast+
  have eq2: "add_takeprofit B E payload w =
      add_provider B E payload order_id user_id user_type symbol side grp tp_raw
        (fst hw) (snd hw)"
    using add_routed_provider [OF rc rf, of B payload order_id symbol side tp_raw]
    by (simp add: eq Let_def hw_def)
  from add_provider_calls_shape [OF q e, of E order_id user_id user_type symbol side grp tp_raw
      "fst hw" "snd hw"]
  obtain pre cv qq ee p where c: "calls w' =
       calls (snd (contract_value_of B E symbol grp cv qq ee
                (snd (fill_from_cache B E order_id qty_in price_in
                   (snd (exec_pipeline E MarkTakeprofit mark pre))))))
       @ [SendProviderOrder p]"
    unfolding w' eq2 mk by blast
  from contract_value_of_reads [of B E symbol grp cv qq ee
      "snd (fill_from_cache B E order_id qty_in price_in (snd (exec_pipeline E MarkTakeprofit mark pre)))"]
  obtain m2 where m2: "calls (snd (contract_value_of B E symbol grp cv qq ee
                (snd (fill_from_cache B E order_id qty_in price_in
                   (snd (exec_pipeline E MarkTakeprofit mark pre))))))
      = calls (snd (fill_from_cache B E order_id qty_in price_in
                   (snd (exec_pipeline E MarkTakeprofit mark pre)))) @ m2"
    and r2: "\<forall>c\<in>set m2. \<not> is_write c"
    by blast
  from fill_from_cache_reads [of B E order_id qty_in price_in "snd (exec_pipeline E MarkTakeprofit mark pre)"]
  obtain m1 where m1: "calls (snd (fill_from_cache B E order_id qty_in price_in
                   (snd (exec_pipeline E MarkTakeprofit mark pre))))
      = calls (snd (exec_pipeline E MarkTakeprofit mark pre)) @ m1"
    and r1: "\<forall>c\<in>set m1. \<not> is_write c"
    by blast
  have "calls w' = calls pre @ [RedisPipeline mark] @ (m1 @ m2) @ [SendProviderOrder p]"
    unfolding c m2 m1 by (simp del: contract_value_of_simps fill_from_cache_simps)
  moreover from r1 r2 have "\<forall>c\<in>set (m1 @ m2). \<not> is_write c" by auto
  ultimately have order: "\<exists>pre mid p. calls w' = pre @ [RedisPipeline mark] @ mid @ [SendProviderOrder p]
                     \<and> (\<forall>c\<in>set mid. \<not> is_write c)"
    by blast
  have fail: "fst (add_takeprofit B E payload w) = Inr (ProviderSendFailed via)
             \<and> (\<not> raises E MarkTakeprofit \<longrightarrow>
                   redis w' (order_data_key order_id) ''status'' = Some ''TAKEPROFIT''
                   \<and> redis w' (holdings_key user_type user_id order_id) ''status''
                       = Some ''TAKEPROFIT'')"
    if s: "send_result E = (False, via)"
  proof -
    from add_provider_no_raise [of B payload E order_id user_id user_type symbol side grp tp_raw
        "fst hw" "snd hw"] q e
    obtain r where r: "fst (add_provider B E payload order_id user_id user_type symbol side grp
                              tp_raw (fst hw) (snd hw)) = Inr r"
      by blast
    from add_provider_failed_send [OF s r] r
    have "fst (add_takeprofit B E payload w) = Inr (ProviderSendFailed via)"
      by (simp add: eq2)
    moreover have "\<not> raises E MarkTakeprofit \<longrightarrow>
                   redis w' (order_data_key order_id) ''status'' = Some ''TAKEPROFIT''
                   \<and> redis w' (holdings_key user_type user_id order_id) ''status''
                       = Some ''TAKEPROFIT''"
      by (simp add: w' eq2 add_provider_redis marked_status hw_def)
    ultimately show ?thesis by blast
  qed
  from order fail
  show "(\<exists>pre mid p. calls w' = pre @ [RedisPipeline mark] @ mid @ [SendProviderOrder p]
                     \<and> (\<forall>c\<in>set mid. \<not> is_write c))
       \<and> (send_result E = (False, via) \<longrightarrow>
             fst (add_takeprofit B E payload w) = Inr (ProviderSendFailed via)
             \<and> (\<not> raises E MarkTakeprofit \<longrightarrow>
                   redis w' (order_data_key order_id) ''status'' = Some ''TAKEPROFIT''
                   \<and> redis w' (holdings_key user_type user_id order_id) ''status''
                       = Some ''TAKEPROFIT''))"
    by blast
qed

text \<open>A live account routed to \<open>barclays\<close> whose send the gateway refuses.\<close>

theorem provider_add_mark_before_send_witness:
  "fst (add_takeprofit sample_builtins send_failure_env
          (sample_add ''live'' (PFloat (Finite (12 / 10)))) empty_world)
     = Inr (ProviderSendFailed ''unavailable'')
   \<and> redis (snd (add_takeprofit sample_builtins send_failure_env
                   (sample_add ''live'' (PFloat (Finite (12 / 10)))) empty_world))
        ''order_data:O1'' ''status'' = Some ''TAKEPROFIT''
   \<and> redis (snd (add_takeprofit sample_builtins send_failure_env
                   (sample_add ''live'' (PFloat (Finite (12 / 10)))) empty_world))
        ''user_holdings:{live:U1}:O1'' ''status'' = Some ''TAKEPROFIT''"
proof -
  let ?p = "sample_add ''live'' (PFloat (Finite (12 / 10)))"
  let ?E = send_failure_env
  let ?mark = "[Hset (order_data_key ''O1'')
                  [(''status'', ''TAKEPROFIT''), (''symbol'', ''EURUSD''), (''order_type'', ''BUY'')],
                Hset (holdings_key ''live'' ''U1'' ''O1'') [(''status'', ''TAKEPROFIT'')]]"
  have pre: "(\<forall>k\<in>set add_required. ?p k \<noteq> None)
        \<and> ''O1'' = py_str sample_builtins (dget ?p ''order_id'')
        \<and> ''U1'' = py_str sample_builtins (dget ?p ''user_id'')
        \<and> ''live'' = lower (py_str sample_builtins (dget ?p ''user_type''))
        \<and> ''EURUSD'' = upper (py_str sample_builtins (dget ?p ''symbol''))
        \<and> ''BUY'' = upper (py_str sample_builtins (dget ?p ''order_type''))
        \<and> ''BUY'' \<in> {''BUY'', ''SELL''}
        \<and> safe_float sample_builtins (dget ?p ''take_profit'') = Inr (Some (Finite (12 / 10)))
        \<and> \<not> fle_zero (Finite (12 / 10))
        \<and> safe_float sample_builtins (dget ?p ''order_quantity'') = Inr None
        \<and> safe_float sample_builtins (dget ?p ''order_price'') = Inr None
        \<and> fst (read_config ?E ''live'' ''U1'' empty_world) = Inr (PStr ''Standard'', ''barclays'')
        \<and> resolve_flow ''live'' ''barclays'' = Some Provider
        \<and> ?mark = ?mark
        \<and> snd (add_takeprofit sample_builtins ?E ?p empty_world)
            = snd (add_takeprofit sample_builtins ?E ?p empty_world)"
    by (simp add: sample_defs send_failure_env_def barclays_env_def add_required_def dget_def
      py_str_def str_defs safe_float_def py_float_def fle_zero_def read_config_def py_or_def
      truthy_def resolve_flow_def Let_def)
  have s: "send_result ?E = (False, ''unavailable'')"
    by (simp add: send_failure_env_def)
  have m: "\<not> raises ?E MarkTakeprofit"
    by (simp add: send_failure_env_def barclays_env_def routed_env_def quiet_env_def)
  from provider_add_mark_before_send [where payload = ?p
      and B = sample_builtins and E = ?E and w = empty_world and order_id = "''O1''"
      and user_id = "''U1''" and user_type = "''live''" and symbol = "''EURUSD''"
      and side = "''BUY''" and tp_raw = "Finite (12 / 10)" and grp = "PStr ''Standard''"
      and sending_orders = "''barclays''" and qty_in = None and price_in = None and mark = ?mark
      and w' = "snd (add_takeprofit sample_builtins ?E ?p empty_world)"
      and via = "''unavailable''",
      THEN mp, OF pre, THEN conjunct2, THEN mp, OF s] m
  show ?thesis
    by (simp add: order_data_key_def holdings_key_def)
qed

subsection \<open>Validation\<close>

text \<open>
  What the checks of lines 37 to 50 and 242 to 252 reject, each time before any
  external call (the world is returned as it was): missing keys, named in the result;
  an \<open>order_type\<close> that is neither BUY nor SELL once upper-cased (and stripped, for
  cancel); a \<open>take_profit\<close> that \<open>float\<close> does not convert, or whose float is \<open><= 0\<close>.
\<close>

lemma add_takeprofit_rejects:
  "(filter (\<lambda>k. payload k = None) add_required \<noteq> [] \<longrightarrow>
      add_takeprofit B E payload w =
        (Inr (MissingFields (filter (\<lambda>k. payload k = None) add_required)), w))
   \<and> (filter (\<lambda>k. payload k = None) add_required = []
        \<and> upper (py_str B (dget payload ''order_type'')) \<notin> {''BUY'', ''SELL''} \<longrightarrow>
      add_takeprofit B E payload w = (Inr InvalidOrderType, w))
   \<and> (filter (\<lambda>k. payload k = None) add_required = []
        \<and> upper (py_str B (dget payload ''order_type'')) \<in> {''BUY'', ''SELL''}
        \<and> (safe_float B (dget payload ''take_profit'') = Inr None
            \<or> (\<exists>tp. safe_float B (dget payload ''take_profit'') = Inr (Some tp) \<and> fle_zero tp)) \<longrightarrow>
      add_takeprofit B E payload w = (Inr InvalidTakeProfit, w))"
  by (auto simp: add_takeprofit_def Let_def)

lemma cancel_takeprofit_rejects:
  "(filter (\<lambda>k. payload k = None) cancel_required \<noteq> [] \<longrightarrow>
      cancel_takeprofit B E payload w =
        (Inr (MissingFields (filter (\<lambda>k. payload k = None) cancel_required)), w))
   \<and> (filter (\<lambda>k. payload k = None) cancel_required = []
        \<and> strip (upper (py_str B (dget payload ''order_type''))) \<notin> {''BUY'', ''SELL''} \<longrightarrow>
      cancel_takeprofit B E payload w = (Inr InvalidOrderType, w))"
  by (auto simp: cancel_takeprofit_def Let_def)

text \<open>The example of the specification: a cancel without takeprofit_id.\<close>

lemma cancel_missing_takeprofit_id:
  "cancel_takeprofit sample_builtins quiet_env
     (map_of [(''order_id'', PStr ''O1''), (''user_id'', PStr ''U1''), (''user_type'', PStr ''demo''),
              (''symbol'', PStr ''eurusd''), (''order_type'', PStr ''buy'')]) empty_world
   = (Inr (MissingFields [''takeprofit_id'']), empty_world)"
  by (simp add: cancel_takeprofit_def cancel_required_def)

lemma not_positive_iff: "tp \<noteq> NaN \<Longrightarrow> (\<not> fgt_zero tp) = fle_zero tp"
  by (cases tp) (auto simp: fgt_zero_def fle_zero_def)

text \<open>\<open>float\<close> on an int too large for a float raises OverflowError, which
  \<open>_safe_float\<close> does not catch: the operation raises instead of returning.\<close>

lemma add_takeprofit_raises:
  "filter (\<lambda>k. payload k = None) add_required = [] \<Longrightarrow>
   upper (py_str B (dget payload ''order_type'')) \<in> {''BUY'', ''SELL''} \<Longrightarrow>
   safe_float B (dget payload ''take_profit'') = Inl e \<Longrightarrow>
   add_takeprofit B E payload w = (Inl e, w)"
  by (auto simp: add_takeprofit_def Let_def)

text \<open>
  C7 fails on a take-profit that is not a number: \<open>float("nan")\<close> converts, and
  \<open>tp_raw <= 0\<close> is false on NaN, so the request passes the checks of line 49, the
  configuration is read and a trigger with take-profit NaN is written and reported as
  a success. For every other float the check rejects exactly what is not positive
  (\<open>not_positive_iff\<close>).
\<close>

theorem nan_take_profit_accepted:
  "\<not> fgt_zero NaN
   \<and> safe_float sample_builtins (PFloat NaN) = Inr (Some NaN)
   \<and> fst (add_takeprofit sample_builtins quiet_env (sample_add ''demo'' (PFloat NaN)) empty_world)
       = Inr (AddedLocal ''local'' ''O1'' ''EURUSD'' ''BUY'' NaN NaN)
   \<and> fst (add_takeprofit sample_builtins quiet_env (sample_add ''demo'' (PStr ''nan'')) empty_world)
       = Inr (AddedLocal ''local'' ''O1'' ''EURUSD'' ''BUY'' NaN NaN)
   \<and> calls (snd (add_takeprofit sample_builtins quiet_env (sample_add ''demo'' (PFloat NaN))
                    empty_world)) \<noteq> []
   \<and> triggers (snd (add_takeprofit sample_builtins quiet_env (sample_add ''demo'' (PFloat NaN))
                       empty_world)) ''O1'' \<noteq> None"
  by (simp add: fgt_zero_def add_takeprofit_def add_routed_def add_required_def sample_defs dget_def
      py_str_def str_defs safe_float_def py_float_def fle_zero_def read_config_def py_or_def
      truthy_def resolve_flow_def fst_compute_half_spread half_spread_body_def fmul_def fhalve_def
      add_local_result add_local_calls add_local_triggers fadd_def Let_def split_beta)

subsection \<open>Waiting for the acknowledgement\<close>

lemma upper_Nil_iff [simp]: "upper s = [] \<longleftrightarrow> s = []"
  by (simp add: upper_def)

lemma ord_status_of_empty: "ord_status_of B Map.empty = []"
  by (simp add: ord_status_of_def dget_def py_or_def truthy_def py_str_def upper_def)

lemma poll_Some_iff:
  "[] \<notin> set expect \<Longrightarrow>
   poll B expect raw = Some s \<longleftrightarrow>
     (\<exists>d. raw = JsonObject d \<and> ord_status_of B d = s \<and> s \<in> set expect)"
  by (cases raw) (auto simp: poll_def ord_status_of_empty)

lemma poll_time_mono: "j \<le> k \<Longrightarrow> poll_time A now j \<le> poll_time A now k"
  by (induction k) (auto simp: le_Suc_eq)

lemma poll_time_lower: "now + 100 * int k \<le> poll_time A now k"
  by (induction k) auto

lemma wait_loop_char:
  "t = poll_time A now k \<Longrightarrow> wait_loop B A key expect d k t = (r, n) \<Longrightarrow>
     k \<le> n \<and> (\<forall>j. k \<le> j \<and> j < n \<longrightarrow> poll_time A now j < d)
     \<and> (case r of
          None \<Rightarrow> \<not> poll_time A now n < d
                  \<and> (\<forall>j. k \<le> j \<and> j < n \<longrightarrow> poll B expect (channel A key j) = None)
        | Some s \<Rightarrow> k < n \<and> poll B expect (channel A key (n - 1)) = Some s
                  \<and> (\<forall>j. k \<le> j \<and> j < n - 1 \<longrightarrow> poll B expect (channel A key j) = None))"
proof (induction B A key expect d k t arbitrary: r n rule: wait_loop.induct)
  case (1 B A key expect deadline k now')
  note t = "1.prems"(1)
  note res = "1.prems"(2)
  show ?case
  proof (cases "now' < deadline")
    case False
    then have "wait_loop B A key expect deadline k now' = (None, k)"
      by (subst wait_loop.simps) simp
    with res have "r = None" "n = k" by simp_all
    with False t show ?thesis by auto
  next
    case True
    show ?thesis
    proof (cases "poll B expect (channel A key k)")
      case (Some s)
      with True have "wait_loop B A key expect deadline k now' = (Some s, Suc k)"
        by (subst wait_loop.simps) simp
      with res have "r = Some s" "n = Suc k" by simp_all
      with True Some t show ?thesis by (auto simp: le_less)
    next
      case None
      with True have "wait_loop B A key expect deadline k now' =
          wait_loop B A key expect deadline (Suc k) (now' + 100 + int (lag A k))"
        by (subst wait_loop.simps) simp
      with res have rec: "wait_loop B A key expect deadline (Suc k)
           (now' + 100 + int (lag A k)) = (r, n)"
        by simp
      have t': "now' + 100 + int (lag A k) = poll_time A now (Suc k)"
        using t by simp
      note IH = "1.IH" [OF True None t' rec]
      have step: "\<And>j. k \<le> j \<Longrightarrow> j = k \<or> Suc k \<le> j" by auto
      from IH True None t show ?thesis
        by (cases r) (auto dest!: step)
    qed
  qed
qed

text \<open>
  C8, as stated, fails when the empty string is among the expected statuses: a value
  that is not JSON gives the status \<open>""\<close>, which is then a member, and the waiter
  returns it at the first poll instead of polling on.
\<close>

theorem ack_waiter_empty_status_counterexample:
  "wait_for_provider_ack sample_builtins garbled_channel 0 ''T1'' [PStr []] 6000 = (Some [], 1)"
  unfolding wait_for_provider_ack_def Let_def
  by (subst wait_loop.simps)
     (simp add: garbled_channel_def poll_def ord_status_of_empty py_str_def upper_def)

text \<open>
  C8, amended. With a deadline that is not after the start the waiter returns \<open>None\<close>
  and polls nothing. Otherwise it polls every 100 ms (plus what a round takes), each
  poll before the deadline, at most one poll per 100 ms of the timeout. Provided the
  empty string is not among the expected statuses (upper-cased): it returns a status
  only from a poll that found a JSON object whose upper-cased \<open>ord_status\<close> is among
  the upper-cased expected statuses, and returns that upper-cased status; every poll
  before found no such object; it returns \<open>None\<close> only when the deadline has elapsed and
  no poll found one, so an object with an expected status that a poll before the
  deadline would find is returned; and a poll that finds anything else (a failed
  read, no value, no JSON, no object) never ends the wait.
\<close>

theorem ack_waiter:
  "wait_for_provider_ack B A now any_id expected_statuses timeout_ms = (r, n)
     \<and> key = ''provider:ack:'' @ any_id
     \<and> expect = map (\<lambda>s. upper (py_str B s)) expected_statuses
     \<and> deadline = now + timeout_ms
   \<longrightarrow> (timeout_ms \<le> 0 \<longrightarrow> r = None \<and> n = 0)
       \<and> (\<forall>j<n. poll_time A now j < deadline)
       \<and> (r = None \<longrightarrow> \<not> poll_time A now n < deadline)
       \<and> int n * 100 < max timeout_ms 0 + 100
       \<and> ([] \<notin> set expect \<longrightarrow>
            (\<forall>s. r = Some s \<longrightarrow>
                 0 < n \<and> s \<in> set expect
                 \<and> (\<exists>d. channel A key (n - 1) = JsonObject d \<and> ord_status_of B d = s))
            \<and> (\<forall>j d. (Suc j < n \<or> (j < n \<and> r = None)) \<and> channel A key j = JsonObject d
                     \<longrightarrow> ord_status_of B d \<notin> set expect)
            \<and> (\<forall>j d. poll_time A now j < deadline \<and> channel A key j = JsonObject d
                       \<and> ord_status_of B d \<in> set expect \<longrightarrow> r \<noteq> None)
            \<and> (\<forall>j<n. (\<forall>d. channel A key j \<noteq> JsonObject d) \<longrightarrow> Suc j < n \<or> r = None))"
proof (rule impI)
  assume h: "wait_for_provider_ack B A now any_id expected_statuses timeout_ms = (r, n)
     \<and> key = ''provider:ack:'' @ any_id
     \<and> expect = map (\<lambda>s. upper (py_str B s)) expected_statuses
     \<and> deadline = now + timeout_ms"
  then have wl: "wait_loop B A key expect deadline 0 now = (r, n)"
    by (simp add: wait_for_provider_ack_def Let_def)
  from h have dl: "deadline = now + timeout_ms" by simp
  from wait_loop_char [OF _ wl, of now]
  have times: "\<forall>j. j < n \<longrightarrow> poll_time A now j < deadline"
    and cases: "case r of
          None \<Rightarrow> \<not> poll_time A now n < deadline
                  \<and> (\<forall>j. j < n \<longrightarrow> poll B expect (channel A key j) = None)
        | Some s \<Rightarrow> 0 < n \<and> poll B expect (channel A key (n - 1)) = Some s
                  \<and> (\<forall>j. j < n - 1 \<longrightarrow> poll B expect (channel A key j) = None)"
    by (simp_all split: option.splits)
  have none: "\<not> poll_time A now n < deadline" "\<And>j. j < n \<Longrightarrow> poll B expect (channel A key j) = None"
    if "r = None"
    using cases that by simp_all
  have some: "0 < n" "poll B expect (channel A key (n - 1)) = Some s"
    "\<And>j. Suc j < n \<Longrightarrow> poll B expect (channel A key j) = None"
    if "r = Some s" for s
    using cases that by (simp_all add: less_diff_conv)
  have quiet: "poll B expect (channel A key j) = None" if "Suc j < n \<or> (j < n \<and> r = None)" for j
    using that none(2) some(3) by (cases r) auto
  have a: "timeout_ms \<le> 0 \<longrightarrow> r = None \<and> n = 0"
  proof
    assume "timeout_ms \<le> 0"
    then have "\<not> now < deadline" by (simp add: dl)
    then have "wait_loop B A key expect deadline 0 now = (None, 0)"
      by (subst wait_loop.simps) simp
    with wl show "r = None \<and> n = 0" by simp
  qed
  have b: "\<forall>j<n. poll_time A now j < deadline"
    using times by simp
  have c: "r = None \<longrightarrow> \<not> poll_time A now n < deadline"
    using none(1) by simp
  have d: "int n * 100 < max timeout_ms 0 + 100"
  proof (cases n)
    case 0
    then show ?thesis by simp
  next
    case (Suc m)
    with times have "poll_time A now m < deadline" by simp
    with poll_time_lower [of now m A] have "100 * int m < timeout_ms" by (simp add: dl)
    with Suc show ?thesis by simp
  qed
  have e1: "\<forall>s. r = Some s \<longrightarrow>
                 0 < n \<and> s \<in> set expect
                 \<and> (\<exists>d. channel A key (n - 1) = JsonObject d \<and> ord_status_of B d = s)"
    if ne: "[] \<notin> set expect"
  proof (intro allI impI)
    fix s assume r: "r = Some s"
    from some(2) [OF r] poll_Some_iff [OF ne, of B "channel A key (n - 1)" s] some(1) [OF r]
    show "0 < n \<and> s \<in> set expect
                 \<and> (\<exists>d. channel A key (n - 1) = JsonObject d \<and> ord_status_of B d = s)"
      by auto
  qed
  have e2: "\<forall>j d. (Suc j < n \<or> (j < n \<and> r = None)) \<and> channel A key j = JsonObject d
                     \<longrightarrow> ord_status_of B d \<notin> set expect"
  proof (intro allI impI)
    fix j d
    assume p: "(Suc j < n \<or> (j < n \<and> r = None)) \<and> channel A key j = JsonObject d"
    then have "poll B expect (channel A key j) = None" using quiet by blast
    with p show "ord_status_of B d \<notin> set expect"
      by (auto simp: poll_def)
  qed
  have e3: "\<forall>j d. poll_time A now j < deadline \<and> channel A key j = JsonObject d
                       \<and> ord_status_of B d \<in> set expect \<longrightarrow> r \<noteq> None"
  proof (intro allI impI)
    fix j d
    assume p: "poll_time A now j < deadline \<and> channel A key j = JsonObject d
                       \<and> ord_status_of B d \<in> set expect"
    show "r \<noteq> None"
    proof
      assume rn: "r = None"
      have "j < n"
      proof (rule ccontr)
        assume "\<not> j < n"
        then have "poll_time A now n \<le> poll_time A now j"
          by (intro poll_time_mono) simp
        with p none(1) [OF rn] show False by simp
      qed
      from none(2) [OF rn this] p show False
        by (simp add: poll_def)
    qed
  qed
  have e4: "\<forall>j<n. (\<forall>d. channel A key j \<noteq> JsonObject d) \<longrightarrow> Suc j < n \<or> r = None"
    if ne: "[] \<notin> set expect"
  proof (intro allI impI)
    fix j
    assume j: "j < n" and nd: "\<forall>d. channel A key j \<noteq> JsonObject d"
    show "Suc j < n \<or> r = None"
    proof (cases r)
      case None
      then show ?thesis by simp
    next
      case (Some s)
      from some(2) [OF Some] poll_Some_iff [OF ne, of B "channel A key (n - 1)" s]
      obtain d where "channel A key (n - 1) = JsonObject d" by auto
      with nd have "j \<noteq> n - 1" by auto
      with j show ?thesis by auto
    qed
  qed
  from a b c d e1 e2 e3 e4
  show "(timeout_ms \<le> 0 \<longrightarrow> r = None \<and> n = 0)
       \<and> (\<forall>j<n. poll_time A now j < deadline)
       \<and> (r = None \<longrightarrow> \<not> poll_time A now n < deadline)
       \<and> int n * 100 < max timeout_ms 0 + 100
       \<and> ([] \<notin> set expect \<longrightarrow>
            (\<forall>s. r = Some s \<longrightarrow>
                 0 < n \<and> s \<in> set expect
                 \<and> (\<exists>d. channel A key (n - 1) = JsonObject d \<and> ord_status_of B d = s))
            \<and> (\<forall>j d. (Suc j < n \<or> (j < n \<and> r = None)) \<and> channel A key j = JsonObject d
                     \<longrightarrow> ord_status_of B d \<notin> set expect)
            \<and> (\<forall>j d. poll_time A now j < deadline \<and> channel A key j = JsonObject d
                       \<and> ord_status_of B d \<in> set expect \<longrightarrow> r \<noteq> None)
            \<and> (\<forall>j<n. (\<forall>d. channel A key j \<noteq> JsonObject d) \<longrightarrow> Suc j < n \<or> r = None))"
    by blast
qed

text \<open>A key that is empty for two polls and then holds a cancelled order: the third
  poll returns \<open>CANCELLED\<close>; with a timeout of 0 nothing is polled.\<close>

theorem ack_waiter_witness:
  "wait_for_provider_ack sample_builtins cancelled_channel 0 ''T1'' [PStr ''Cancelled''] 6000
     = (Some ''CANCELLED'', 3)
   \<and> (\<exists>d. channel cancelled_channel ''provider:ack:T1'' 2 = JsonObject d
           \<and> ord_status_of sample_builtins d = ''CANCELLED'')
   \<and> wait_for_provider_ack sample_builtins cancelled_channel 0 ''T1'' [PStr ''Cancelled''] 0
     = (None, 0)"
proof -
  have ev: "wait_for_provider_ack sample_builtins cancelled_channel 0 ''T1'' [PStr ''Cancelled''] 6000
     = (Some ''CANCELLED'', 3)"
    by (simp add: wait_for_provider_ack_def wait_loop.simps cancelled_channel_def poll_def
        ord_status_of_def dget_def py_or_def truthy_def py_str_def str_defs Let_def)
  have ne: "[] \<notin> set (map (\<lambda>s. upper (py_str sample_builtins s)) [PStr ''Cancelled''])"
    by (simp add: py_str_def upper_def)
  from ack_waiter [where B = sample_builtins and A = cancelled_channel and now = 0
      and any_id = "''T1''" and expected_statuses = "[PStr ''Cancelled'']" and timeout_ms = 6000
      and r = "Some ''CANCELLED''" and n = 3 and key = "''provider:ack:T1''"
      and expect = "map (\<lambda>s. upper (py_str sample_builtins s)) [PStr ''Cancelled'']"
      and deadline = 6000] ev ne
  have a: "\<exists>d. channel cancelled_channel ''provider:ack:T1'' 2 = JsonObject d
           \<and> ord_status_of sample_builtins d = ''CANCELLED''"
    by (simp add: py_str_def str_defs)
  obtain r n where z: "wait_for_provider_ack sample_builtins cancelled_channel 0 ''T1''
      [PStr ''Cancelled''] 0 = (r, n)"
    by (cases "wait_for_provider_ack sample_builtins cancelled_channel 0 ''T1''
      [PStr ''Cancelled''] 0") blast
  from ack_waiter [where B = sample_builtins and A = cancelled_channel and now = 0
      and any_id = "''T1''" and expected_statuses = "[PStr ''Cancelled'']" and timeout_ms = 0
      and r = r and n = n and key = "''provider:ack:T1''"
      and expect = "map (\<lambda>s. upper (py_str sample_builtins s)) [PStr ''Cancelled'']"
      and deadline = 0] z
  have "r = None \<and> n = 0" by simp
  with z ev a show ?thesis by simp
qed

subsection \<open>Add, then cancel, on the local flow\<close>

lemma cancel_local_triggers:
  "triggers (snd (cancel_local E order_id user_id user_type symbol side w)) =
     (if raises E RemoveTrigger then triggers w else (triggers w)(order_id := None))"
  by (simp add: cancel_local_def Let_def)

lemma cancel_local_redis:
  "redis (snd (cancel_local E order_id user_id user_type symbol side w)) =
     (if raises E ClearTakeprofit then redis w
      else run_cmds
             [Hdel (order_data_key order_id) ''take_profit'',
              Hdel (holdings_key user_type user_id order_id) ''take_profit'',
              Hset (order_data_key order_id)
                [(''status'', ''OPEN''), (''symbol'', symbol), (''order_type'', side)],
              Hset (holdings_key user_type user_id order_id) [(''status'', ''OPEN'')]]
             (redis w))"
  by (simp add: cancel_local_def Let_def)

lemma cleared_status:
  "run_cmds [Hdel k1 ''take_profit'', Hdel k2 ''take_profit'',
             Hset k1 [(''status'', ''OPEN''), (''symbol'', a), (''order_type'', b)],
             Hset k2 [(''status'', ''OPEN'')]] r k1 ''status'' = Some ''OPEN''"
  "run_cmds [Hdel k1 ''take_profit'', Hdel k2 ''take_profit'',
             Hset k1 [(''status'', ''OPEN''), (''symbol'', a), (''order_type'', b)],
             Hset k2 [(''status'', ''OPEN'')]] r k2 ''status'' = Some ''OPEN''"
  "run_cmds [Hdel k1 ''take_profit'', Hdel k2 ''take_profit'',
             Hset k1 [(''status'', ''OPEN''), (''symbol'', a), (''order_type'', b)],
             Hset k2 [(''status'', ''OPEN'')]] r k1 ''take_profit'' = None"
  "run_cmds [Hdel k1 ''take_profit'', Hdel k2 ''take_profit'',
             Hset k1 [(''status'', ''OPEN''), (''symbol'', a), (''order_type'', b)],
             Hset k2 [(''status'', ''OPEN'')]] r k2 ''take_profit'' = None"
  by (simp_all add: run_cmds_def run_cmd_def hset_fields_def)

text \<open>
  C9 fails for an order id with white space around it: \<open>add_takeprofit\<close> keys the
  trigger and both cache records by \<open>str(order_id)\<close> (line 41), \<open>cancel_takeprofit\<close>
  by \<open>str(order_id).strip()\<close> (line 246). After add and cancel of the order \<open>" O1"\<close>
  on the local flow, with every store accepting every write, the trigger of \<open>" O1"\<close>
  is still in the store and its cache records still carry \<open>take_profit\<close> and no
  \<open>status\<close>; the cancel worked on \<open>"O1"\<close>.
\<close>

theorem padded_order_id_survives_cancel:
  "fst (add_takeprofit sample_builtins quiet_env (sample_both '' O1'') empty_world)
     = Inr (AddedLocal ''local'' '' O1'' ''EURUSD'' ''BUY'' (Finite (12 / 10))
              (Finite (12001 / 10000)))
   \<and> fst (cancel_takeprofit sample_builtins quiet_env (sample_both '' O1'')
            (snd (add_takeprofit sample_builtins quiet_env (sample_both '' O1'') empty_world)))
     = Inr (CancelledLocal ''local'' ''O1'' ''EURUSD'' ''BUY'')
   \<and> triggers (snd (cancel_takeprofit sample_builtins quiet_env (sample_both '' O1'')
            (snd (add_takeprofit sample_builtins quiet_env (sample_both '' O1'') empty_world))))
        '' O1'' \<noteq> None
   \<and> redis (snd (cancel_takeprofit sample_builtins quiet_env (sample_both '' O1'')
            (snd (add_takeprofit sample_builtins quiet_env (sample_both '' O1'') empty_world))))
        ''order_data: O1'' ''take_profit'' = Some ''1.2''
   \<and> redis (snd (cancel_takeprofit sample_builtins quiet_env (sample_both '' O1'')
            (snd (add_takeprofit sample_builtins quiet_env (sample_both '' O1'') empty_world))))
        ''order_data: O1'' ''status'' = None
   \<and> redis (snd (cancel_takeprofit sample_builtins quiet_env (sample_both '' O1'')
            (snd (add_takeprofit sample_builtins quiet_env (sample_both '' O1'') empty_world))))
        ''user_holdings:{demo:U1}: O1'' ''take_profit'' = Some ''1.2''"
  by (simp add: add_takeprofit_def add_routed_def cancel_takeprofit_def cancel_routed_def
      add_required_def cancel_required_def sample_both_def sample_builtins_def quiet_env_def
      empty_world_def dget_def py_str_def str_defs safe_float_def py_float_def fle_zero_def
      read_config_def py_or_def truthy_def resolve_flow_def fst_compute_half_spread
      half_spread_body_def fmul_def fhalve_def fadd_def Let_def split_beta
      add_local_result add_local_triggers add_local_redis cancel_local_result
      cancel_local_triggers cancel_local_redis order_data_key_def holdings_key_def
      run_cmds_def run_cmd_def hset_fields_def)

lemma read_config_fst_world:
  "fst (read_config E ut uid w1) = fst (read_config E ut uid w)"
  by (simp add: read_config_def Let_def split: pyval.splits)

lemma strip_literals:
  "strip ''BUY'' = ''BUY''" "strip ''SELL'' = ''SELL''" "strip ''demo'' = ''demo''"
  "strip ''live'' = ''live''" "strip ''strategy_provider'' = ''strategy_provider''"
  "strip ''copy_follower'' = ''copy_follower''"
  by (simp_all add: strip_def is_space_def)

lemma strip_side: "s \<in> {''BUY'', ''SELL''} \<Longrightarrow> strip s = s"
  using strip_literals by blast

lemma resolve_flow_user_type:
  "resolve_flow user_type so = Some fl \<Longrightarrow>
     user_type = ''demo'' \<or> user_type = ''live'' \<or> user_type = ''strategy_provider''
     \<or> user_type = ''copy_follower''"
  unfolding resolve_flow_def by (metis list.set_intros(1) list.simps(15) set_ConsD empty_iff empty_set option.distinct(1))

lemma strip_supported_user_type: "resolve_flow user_type so = Some fl \<Longrightarrow> strip user_type = user_type"
  using resolve_flow_user_type [of user_type so fl] strip_literals by blast

text \<open>Where the order id and the user id carry no white space around them, add and
  then cancel leave what C9 says: no trigger, and both cache records with
  \<open>status = OPEN\<close> and without \<open>take_profit\<close>.\<close>

lemma add_then_cancel_local:
  assumes req: "\<forall>k\<in>set add_required. payload k \<noteq> None" "payload ''takeprofit_id'' \<noteq> None"
    and oid: "order_id = py_str B (dget payload ''order_id'')" "strip order_id = order_id"
    and uid: "user_id = py_str B (dget payload ''user_id'')" "strip user_id = user_id"
    and ut: "user_type = lower (py_str B (dget payload ''user_type''))"
    and side: "upper (py_str B (dget payload ''order_type'')) \<in> {''BUY'', ''SELL''}"
    and tp: "safe_float B (dget payload ''take_profit'') = Inr (Some tp_raw)" "\<not> fle_zero tp_raw"
    and rc: "fst (read_config E user_type user_id w) = Inr (grp, so)"
    and rf: "resolve_flow user_type so = Some Local"
    and acc: "upsert_result E" "\<not> raises E RemoveTrigger" "\<not> raises E ClearTakeprofit"
    and w1: "w1 = snd (add_takeprofit B E payload w)"
    and w2: "w2 = snd (cancel_takeprofit B E payload w1)"
  shows "triggers w1 order_id \<noteq> None
     \<and> triggers w2 order_id = None
     \<and> redis w2 (order_data_key order_id) ''status'' = Some ''OPEN''
     \<and> redis w2 (order_data_key order_id) ''take_profit'' = None
     \<and> redis w2 (holdings_key user_type user_id order_id) ''status'' = Some ''OPEN''
     \<and> redis w2 (holdings_key user_type user_id order_id) ''take_profit'' = None"
proof -
  define symbol where "symbol = upper (py_str B (dget payload ''symbol''))"
  define sd where "sd = upper (py_str B (dget payload ''order_type''))"
  define hw where
    "hw = compute_half_spread B E symbol grp (called (FetchUserConfig user_type user_id) w)"
  have a: "add_takeprofit B E payload w =
      add_routed B E payload order_id user_id user_type symbol sd tp_raw w"
    using add_takeprofit_checked [OF req(1) side tp, of E w]
    by (simp add: oid uid ut symbol_def sd_def)
  have a2: "w1 = snd (add_local B E order_id user_id user_type symbol sd tp_raw (fst hw) (snd hw))"
    using add_routed_local [OF rc rf, of B payload order_id symbol sd tp_raw]
    by (simp add: w1 a Let_def hw_def)
  have t1: "triggers w1 order_id \<noteq> None"
    by (simp add: a2 add_local_triggers acc)
  have creq: "\<forall>k\<in>set cancel_required. payload k \<noteq> None"
    using req by (simp add: add_required_def cancel_required_def)
  have ss: "strip sd = sd" using side strip_side by (simp add: sd_def)
  have cs: "strip (upper (py_str B (dget payload ''order_type''))) \<in> {''BUY'', ''SELL''}"
    using side ss by (simp add: sd_def)
  have su: "strip user_type = user_type" using rf by (rule strip_supported_user_type)
  have c: "cancel_takeprofit B E payload w1 =
      cancel_routed B E payload order_id user_id user_type (strip symbol) sd w1"
    using cancel_takeprofit_checked [OF creq cs, of E w1] oid uid su ss
    by (simp add: ut [symmetric] symbol_def sd_def)
  have rc1: "fst (read_config E user_type user_id w1) = Inr (grp, so)"
    using rc by (simp add: read_config_fst_world [of E user_type user_id w1 w])
  have c2: "w2 = snd (cancel_local E order_id user_id user_type (strip symbol) sd
                        (called (FetchUserConfig user_type user_id) w1))"
    using cancel_routed_local [OF rc1 rf, of B payload order_id "strip symbol" sd]
    by (simp add: w2 c Let_def)
  show ?thesis
    using t1 by (simp add: c2 cancel_local_triggers cancel_local_redis acc cleared_status)
qed

end
